theory Spec2Isabelle
  imports Complex_Main
begin

section \<open>Numbers, errors and library primitives\<close>

text \<open>
  The Python floats and NumPy float arrays of the simulator are modelled as real numbers:
  rounding, overflow and the float32 storage of the pose and velocity arrays are not
  represented. Everything the interpreter can raise on the modelled paths is a value of
  \<open>error\<close>. A statement that mutates the object before a later statement raises leaves
  the mutation in place, so a method returns its outcome together with the object.
\<close>

datatype error =
    AssertionError string
  | TypeError string
  | IndexError
  | ZeroDivisionError
  | ValueError

definition bnd :: "error + 'a \<Rightarrow> ('a \<Rightarrow> error + 'b) \<Rightarrow> error + 'b" where
  "bnd x f = (case x of Inl e \<Rightarrow> Inl e | Inr v \<Rightarrow> f v)"

text \<open>
  \<open>a / b\<close>: a zero divisor has no finite quotient (Python raises ZeroDivisionError, NumPy
  scalars give inf or nan); the model returns the error in both cases.
\<close>

definition py_div :: "real \<Rightarrow> real \<Rightarrow> error + real" where
  "py_div a b = (if b = 0 then Inl ZeroDivisionError else Inr (a / b))"

text \<open>\<open>math.sqrt\<close>: a negative argument raises ValueError (math domain error).\<close>

definition py_sqrt :: "real \<Rightarrow> error + real" where
  "py_sqrt a = (if a < 0 then Inl ValueError else Inr (sqrt a))"

text \<open>
  \<open>math.atan2(y, x)\<close> on reals. The signed zeros of doubles are not represented: the
  code has \<open>atan2(-0.0, x) = -pi\<close> for negative \<open>x\<close>, the model \<open>pi\<close>. No statement below
  evaluates \<open>atan2\<close> at a negative \<open>x\<close> with \<open>y = 0\<close>.
\<close>

definition atan2 :: "real \<Rightarrow> real \<Rightarrow> real" where
  "atan2 y x =
     (if 0 < x then arctan (y / x)
      else if x < 0 \<and> 0 \<le> y then arctan (y / x) + pi
      else if x < 0 \<and> y < 0 then arctan (y / x) - pi
      else if 0 < y then pi / 2
      else if y < 0 then - (pi / 2)
      else 0)"

text \<open>\<open>np.clip(a, a_min, a_max)\<close> is \<open>minimum(a_max, maximum(a, a_min))\<close>.\<close>

definition np_clip :: "real \<Rightarrow> real \<Rightarrow> real \<Rightarrow> real" where
  "np_clip a a_min a_max = min a_max (max a a_min)"

text \<open>
  Where the rounding of the code's doubles decides a statement, it is modelled by
  \<open>round_f64\<close>: the nearest number with a significand of 53 bits, ties to the even
  significand. The exponent range is not bounded (no overflow, no subnormal numbers),
  which is exact for magnitudes between \<open>2.3e-308\<close> and \<open>1.7e308\<close>.
\<close>

definition round_half_even :: "real \<Rightarrow> int" where
  "round_half_even y =
     (let f = \<lfloor>y\<rfloor> in
      if y - of_int f < 1 / 2 then f
      else if y - of_int f > 1 / 2 then f + 1
      else if even f then f else f + 1)"

definition round_f64 :: "real \<Rightarrow> real" where
  "round_f64 x =
     (if x = 0 then 0
      else
        let e = \<lfloor>log 2 \<bar>x\<bar>\<rfloor>;
            ulp = 2 powr (of_int e - 52)
        in ulp * of_int (round_half_even (x / ulp)))"

type_synonym vec3 = "real \<times> real \<times> real"

section \<open>The KVLCC2 vessel (MMG\_KVLCC2.py)\<close>

subsection \<open>Parameters\<close>

text \<open>
  The dictionary \<open>kvlcc2_full\<close>; its entries are copied to attributes of the vessel
  by \<open>setattr\<close>. The entries \<open>m\<close>, \<open>B\<close> and \<open>d\<close> are named \<open>ship_m\<close>, \<open>ship_B\<close> and
  \<open>ship_d\<close> here. \<open>gamma_R\<close> is \<open>None\<close> in the source and \<open>A_R\<close> is tested against
  \<open>None\<close>, so both are optional values.
\<close>

record kvlcc2_params =
  C_b :: real
  Lpp :: real
  ship_B :: real
  ship_m :: real
  w_P0 :: real
  J_int :: real
  J_slo :: real
  x_G :: real
  x_P :: real
  D_p :: real
  k_0 :: real
  k_1 :: real
  k_2 :: real
  C_1 :: real
  C_2_plus :: real
  C_2_minus :: real
  l_R :: real
  gamma_R :: "real option"
  gamma_R_plus :: real
  gamma_R_minus :: real
  eta_param :: real
  kappa :: real
  A_R :: "real option"
  epsilon :: real
  A_R_Ld_em :: real
  f_alpha :: real
  rho :: real
  t_R :: real
  t_P :: real
  x_H_dash :: real
  ship_d :: real
  m_x_dash :: real
  m_y_dash :: real
  R_0_dash :: real
  X_vv_dash :: real
  X_vr_dash :: real
  X_rr_dash :: real
  X_vvvv_dash :: real
  Y_v_dash :: real
  Y_r_dash :: real
  Y_vvv_dash :: real
  Y_vvr_dash :: real
  Y_vrr_dash :: real
  Y_rrr_dash :: real
  N_v_dash :: real
  N_r_dash :: real
  N_vvv_dash :: real
  N_vvr_dash :: real
  N_vrr_dash :: real
  N_rrr_dash :: real
  I_zG :: real
  J_z_dash :: real
  a_H :: real

definition kvlcc2_full :: kvlcc2_params where
  "kvlcc2_full = \<lparr>
     C_b = 0.810, Lpp = 320.0, ship_B = 58, ship_m = 312600 * 1000, w_P0 = 0.35,
     J_int = 0.4, J_slo = - 0.5, x_G = 11.2, x_P = - 160.0, D_p = 9.86,
     k_0 = 0.2931, k_1 = - 0.2753, k_2 = - 0.1359,
     C_1 = 2.0, C_2_plus = 1.6, C_2_minus = 1.1, l_R = - 0.710,
     gamma_R = None, gamma_R_plus = 0.640, gamma_R_minus = 0.395,
     eta_param = 0.626, kappa = 0.50, A_R = Some 112.5, epsilon = 1.09,
     A_R_Ld_em = 1 / 46.8, f_alpha = 2.747, rho = 1000, t_R = 0.387, t_P = 0.220,
     x_H_dash = - 0.464, ship_d = 20.8, m_x_dash = 0.022, m_y_dash = 0.223,
     R_0_dash = 0.022,
     X_vv_dash = - 0.040, X_vr_dash = 0.002, X_rr_dash = 0.011, X_vvvv_dash = 0.771,
     Y_v_dash = - 0.315, Y_r_dash = 0.083, Y_vvv_dash = - 1.607, Y_vvr_dash = 0.379,
     Y_vrr_dash = - 0.391, Y_rrr_dash = 0.008,
     N_v_dash = - 0.137, N_r_dash = - 0.049, N_vvv_dash = - 0.030,
     N_vvr_dash = - 0.294, N_vrr_dash = 0.055, N_rrr_dash = - 0.013,
     I_zG = 2 * 10 ^ 12, J_z_dash = 0.011, a_H = 0.312 \<rparr>"

text \<open>The keys of the dictionary, for the membership tests of \<open>_mmg_dynamics\<close>.\<close>

definition kvlcc2_full_keys :: "string list" where
  "kvlcc2_full_keys =
     [''C_b'', ''Lpp'', ''B'', ''m'', ''w_P0'', ''J_int'', ''J_slo'', ''x_G'', ''x_P'', ''D_p'',
      ''k_0'', ''k_1'', ''k_2'', ''C_1'', ''C_2_plus'', ''C_2_minus'', ''l_R'', ''gamma_R'',
      ''gamma_R_plus'', ''gamma_R_minus'', ''eta_param'', ''kappa'', ''A_R'', ''epsilon'',
      ''A_R_Ld_em'', ''f_alpha'', ''rho'', ''t_R'', ''t_P'', ''x_H_dash'', ''d'', ''m_x_dash'',
      ''m_y_dash'', ''R_0_dash'', ''X_vv_dash'', ''X_vr_dash'', ''X_rr_dash'', ''X_vvvv_dash'',
      ''Y_v_dash'', ''Y_r_dash'', ''Y_vvv_dash'', ''Y_vvr_dash'', ''Y_vrr_dash'', ''Y_rrr_dash'',
      ''N_v_dash'', ''N_r_dash'', ''N_vvv_dash'', ''N_vvr_dash'', ''N_vrr_dash'', ''N_rrr_dash'',
      ''I_zG'', ''J_z_dash'', ''a_H'']"

subsection \<open>The vessel object\<close>

text \<open>
  \<open>nu_old\<close> is first assigned by \<open>_upd_dynamics\<close>, so it is absent after construction.
  \<open>dtr\<close> comes from the module FossenFnc, which is not among the sources; the
  constructor takes it as a parameter.
\<close>

record kvlcc2 =
  delta_t :: real
  N_max :: real
  E_max :: real
  action :: int
  prm :: kvlcc2_params
  nps :: real
  rud_angle_max :: real
  rud_angle_inc :: real
  rud_angle :: real
  eta :: vec3
  nu :: vec3
  nu_dot :: vec3
  nu_old :: "vec3 option"

definition KVLCC2_init ::
  "(real \<Rightarrow> real) \<Rightarrow> real \<Rightarrow> real \<Rightarrow> real \<Rightarrow> real \<Rightarrow> real \<Rightarrow> real \<Rightarrow> real \<Rightarrow> real \<Rightarrow> real \<Rightarrow> kvlcc2" where
  "KVLCC2_init dtr N_init E_init psi_init u_init v_init r_init dt N_mx E_mx =
     \<lparr> delta_t = dt, N_max = N_mx, E_max = E_mx, action = 0,
       prm = kvlcc2_full,
       nps = 4.0,
       rud_angle_max = dtr 10,
       rud_angle_inc = dtr 2.5 * dt,
       rud_angle = 0,
       eta = (N_init, E_init, psi_init),
       nu = (u_init, v_init, r_init),
       nu_dot = (0, 0, 0),
       nu_old = None \<rparr>"

subsection \<open>Rudder control\<close>

text \<open>
  \<open>_control(a)\<close>: the assertion \<open>a in range(3)\<close> runs before anything is assigned.
\<close>

definition control :: "kvlcc2 \<Rightarrow> int \<Rightarrow> (error + unit) \<times> kvlcc2" where
  "control os a =
     (if \<not> (0 \<le> a \<and> a < 3) then (Inl (AssertionError ''Unknown action.''), os)
      else
        let os1 = os\<lparr>action := a\<rparr>;
            os2 = (if a = 0 then os1
                   else if a = 1 then os1\<lparr>rud_angle := rud_angle os1 + rud_angle_inc os1\<rparr>
                   else if a = 2 then os1\<lparr>rud_angle := rud_angle os1 - rud_angle_inc os1\<rparr>
                   else os1)
        in (Inr (), os2\<lparr>rud_angle := np_clip (rud_angle os2) (- rud_angle_max os2) (rud_angle_max os2)\<rparr>))"

text \<open>The vessel after a sequence of calls of \<open>_control\<close>, one per action.\<close>

definition control_seq :: "kvlcc2 \<Rightarrow> int list \<Rightarrow> kvlcc2" where
  "control_seq os acts = foldl (\<lambda>s a. snd (control s a)) os acts"

text \<open>
  In \<open>control\<close> the sum and the difference are exact. The code computes them in doubles,
  so each is rounded before the clip. \<open>control_rnd\<close> is \<open>_control\<close> with a rounding
  function applied to the result of \<open>+=\<close> and \<open>-=\<close>: the identity gives \<open>control\<close>, and
  \<open>round_f64\<close> gives the arithmetic of the code. The comparisons of \<open>np.clip\<close> are exact
  in both.
\<close>

definition control_rnd :: "(real \<Rightarrow> real) \<Rightarrow> kvlcc2 \<Rightarrow> int \<Rightarrow> (error + unit) \<times> kvlcc2" where
  "control_rnd rnd os a =
     (if \<not> (0 \<le> a \<and> a < 3) then (Inl (AssertionError ''Unknown action.''), os)
      else
        let os1 = os\<lparr>action := a\<rparr>;
            os2 = (if a = 0 then os1
                   else if a = 1 then os1\<lparr>rud_angle := rnd (rud_angle os1 + rud_angle_inc os1)\<rparr>
                   else if a = 2 then os1\<lparr>rud_angle := rnd (rud_angle os1 - rud_angle_inc os1)\<rparr>
                   else os1)
        in (Inr (), os2\<lparr>rud_angle := np_clip (rud_angle os2) (- rud_angle_max os2) (rud_angle_max os2)\<rparr>))"

text \<open>The rudder angle that a call with action 1 or 2 hands to \<open>np.clip\<close>.\<close>

definition rud_unclipped :: "(real \<Rightarrow> real) \<Rightarrow> kvlcc2 \<Rightarrow> int \<Rightarrow> real" where
  "rud_unclipped rnd os a =
     (if a = 1 then rnd (rud_angle os + rud_angle_inc os)
      else rnd (rud_angle os - rud_angle_inc os))"

text \<open>The vessel after \<open>k\<close> calls of \<open>_control\<close> with the same action.\<close>

definition control_times :: "(real \<Rightarrow> real) \<Rightarrow> nat \<Rightarrow> int \<Rightarrow> kvlcc2 \<Rightarrow> kvlcc2" where
  "control_times rnd k a os = ((\<lambda>s. snd (control_rnd rnd s a)) ^^ k) os"

subsection \<open>Current coefficients\<close>

definition C_X :: "real \<Rightarrow> real" where
  "C_X g_rc =
     - 0.0665 * g_rc ^ 5 + 0.5228 * g_rc ^ 4 - 1.4365 * g_rc ^ 3 + 1.6024 * g_rc ^ 2
       - 0.2967 * g_rc - 0.4691"

definition C_Y :: "real \<Rightarrow> real" where
  "C_Y g_rc =
     0.05930686 * g_rc ^ 4 - 0.37522028 * g_rc ^ 3 + 0.46812233 * g_rc ^ 2
       + 0.39114522 * g_rc - 0.00273578"

definition C_N :: "real \<Rightarrow> real" where
  "C_N g_rc =
     - 0.0140 * g_rc ^ 5 + 0.1131 * g_rc ^ 4 - 0.2757 * g_rc ^ 3 + 0.1617 * g_rc ^ 2
       + 0.0728 * g_rc"

text \<open>
  A call with positional arguments: Python raises TypeError unless the number of
  arguments given equals the number of parameters declared.
\<close>

definition call_positional :: "string \<Rightarrow> nat \<Rightarrow> nat \<Rightarrow> 'a \<Rightarrow> error + 'a" where
  "call_positional name n_declared n_given result =
     (if n_given = n_declared then Inr result
      else Inl (TypeError (name @ ''() got the wrong number of positional arguments'')))"

text \<open>
  \<open>_C_X\<close>, \<open>_C_Y\<close> and \<open>_C_N\<close> are declared inside the class with the one parameter
  \<open>g_rc\<close> and no \<open>self\<close>. \<open>_mmg_dynamics\<close> calls them as \<open>self._C_X(g_rc)\<close>, which
  passes the vessel and \<open>g_rc\<close>: two arguments for one parameter.
\<close>

definition self_C_X :: "kvlcc2 \<Rightarrow> real \<Rightarrow> error + real" where
  "self_C_X os g_rc = call_positional ''_C_X'' 1 2 (C_X g_rc)"

definition self_C_Y :: "kvlcc2 \<Rightarrow> real \<Rightarrow> error + real" where
  "self_C_Y os g_rc = call_positional ''_C_Y'' 1 2 (C_Y g_rc)"

definition self_C_N :: "kvlcc2 \<Rightarrow> real \<Rightarrow> error + real" where
  "self_C_N os g_rc = call_positional ''_C_N'' 1 2 (C_N g_rc)"

subsection \<open>The MMG right-hand side\<close>

type_synonym vec6 = "real \<times> real \<times> real \<times> real \<times> real \<times> real"

definition T_of_psi :: "real \<Rightarrow> vec3 \<times> vec3 \<times> vec3" where
  "T_of_psi psi = ((cos psi, - sin psi, 0), (sin psi, cos psi, 0), (0, 0, 1))"

definition np_dot :: "vec3 \<times> vec3 \<times> vec3 \<Rightarrow> vec3 \<Rightarrow> vec3" where
  "np_dot M x =
     (case M of ((a11, a12, a13), (a21, a22, a23), (a31, a32, a33)) \<Rightarrow>
      case x of (x1, x2, x3) \<Rightarrow>
        (a11 * x1 + a12 * x2 + a13 * x3,
         a21 * x1 + a22 * x2 + a23 * x3,
         a31 * x1 + a32 * x2 + a33 * x3))"

definition vm_from_v_r :: "kvlcc2 \<Rightarrow> real \<Rightarrow> real \<Rightarrow> real" where
  "vm_from_v_r os v r = v - x_G (prm os) * r"

text \<open>
  Lines 144 to 154 of \<open>_mmg_dynamics\<close>: the midship lateral velocity, the speed \<open>U\<close>, and
  the drift angle and non-dimensional velocities, with the branch for \<open>U == 0.0\<close>.
  The result is \<open>(vm, U, beta, v_dash, r_dash)\<close>. Over the reals \<open>U = 0\<close> means
  \<open>u = 0\<close> and \<open>vm = 0\<close>. In doubles \<open>U == 0.0\<close> also holds when the squares of tiny
  non-zero velocities underflow; that case is not represented.
\<close>

definition mmg_drift :: "kvlcc2 \<Rightarrow> real \<Rightarrow> real \<Rightarrow> real \<Rightarrow> error + (real \<times> real \<times> real \<times> real \<times> real)" where
  "mmg_drift os u v r =
     (let vm = vm_from_v_r os v r in
      bnd (py_sqrt (u ^ 2 + vm ^ 2)) (\<lambda>U.
        if U = 0 then Inr (vm, U, 0, 0, 0)
        else
          let beta = atan2 (- vm) u in
          bnd (py_div vm U) (\<lambda>v_dash.
          bnd (py_div (r * Lpp (prm os)) U) (\<lambda>r_dash.
            Inr (vm, U, beta, v_dash, r_dash)))))"

text \<open>Lines 157 to 174: wake fraction, advance ratio and thrust coefficient \<open>(w_P, J, K_T)\<close>.\<close>

definition mmg_propeller :: "kvlcc2 \<Rightarrow> real \<Rightarrow> real \<Rightarrow> real \<Rightarrow> error + (real \<times> real \<times> real)" where
  "mmg_propeller os u beta r_dash =
     bnd (py_div (x_P (prm os)) (Lpp (prm os))) (\<lambda>q.
       let beta_P = beta - q * r_dash;
           w_P =
             (if list_all (\<lambda>key. key \<in> set kvlcc2_full_keys) [''C_1'', ''C_2_plus'', ''C_2_minus'']
              then
                let C_2 = (if beta_P \<ge> 0 then C_2_plus (prm os) else C_2_minus (prm os))
                in - (1 + (1 - exp (- C_1 (prm os) * \<bar>beta_P\<bar>) * (C_2 - 1)) * (1 - w_P0 (prm os))) + 1
              else w_P0 (prm os) * exp (- 4.0 * beta_P ^ 2))
       in
       bnd (if nps os = 0 then Inr 0
            else py_div ((1 - w_P) * u) (nps os * D_p (prm os))) (\<lambda>J.
         let K_T =
               (if list_all (\<lambda>key. key \<in> set kvlcc2_full_keys) [''k_0'', ''k_1'', ''k_2'']
                then k_0 (prm os) + (k_1 (prm os) * J) + (k_2 (prm os) * J ^ 2)
                else J_slo (prm os) * J + J_int (prm os))
         in Inr (w_P, J, K_T)))"

text \<open>Lines 176 to 212: the inflow to the rudder and the rudder normal force \<open>F_N\<close>.\<close>

definition mmg_rudder ::
  "kvlcc2 \<Rightarrow> real \<Rightarrow> real \<Rightarrow> real \<Rightarrow> real \<Rightarrow> real \<Rightarrow> real \<Rightarrow> real \<Rightarrow> error + real" where
  "mmg_rudder os u U beta r_dash w_P J K_T =
     (let beta_R = beta - l_R (prm os) * r_dash;
          gamma =
            (case gamma_R (prm os) of
               Some g \<Rightarrow> g
             | None \<Rightarrow> if beta_R < 0 then gamma_R_minus (prm os) else gamma_R_plus (prm os));
          v_R = U * gamma * beta_R
      in
      bnd (if J = 0 then
             py_sqrt (eta_param (prm os) *
               (kappa (prm os) * epsilon (prm os) * 8.0 * k_0 (prm os) * nps os ^ 2
                  * D_p (prm os) ^ 4 / pi) ^ 2)
           else
             bnd (py_div (8.0 * K_T) (pi * J ^ 2)) (\<lambda>q.
             bnd (py_sqrt (1.0 + q)) (\<lambda>s1.
             bnd (py_sqrt (eta_param (prm os) * (1.0 + kappa (prm os) * (s1 - 1)) ^ 2
                            + (1 - eta_param (prm os)))) (\<lambda>s2.
               Inr (u * (1 - w_P) * epsilon (prm os) * s2))))) (\<lambda>u_R.
      bnd (py_sqrt (u_R ^ 2 + v_R ^ 2)) (\<lambda>U_R.
        let alpha_R = rud_angle os - atan2 v_R u_R in
        Inr (case A_R (prm os) of
               Some a \<Rightarrow> 0.5 * a * rho (prm os) * f_alpha (prm os) * (U_R ^ 2) * sin alpha_R
             | None \<Rightarrow>
                 0.5 * A_R_Ld_em (prm os) * (Lpp (prm os) * ship_d (prm os) * rho (prm os))
                   * f_alpha (prm os) * (U_R ^ 2) * sin alpha_R))))"

text \<open>
  Lines 262 to 286: the forces of the current \<open>(X_C, Y_C, N_C)\<close>. \<open>fl_vel\<close> is compared
  with \<open>None\<close>, so it is optional.
\<close>

definition current_forces ::
  "kvlcc2 \<Rightarrow> real \<Rightarrow> real \<Rightarrow> real \<Rightarrow> real \<Rightarrow> real option \<Rightarrow> error + vec3" where
  "current_forces os psi u vm fl_psi fl_vel =
     (case fl_vel of
        None \<Rightarrow> Inr (0, 0, 0)
      | Some fv \<Rightarrow>
          if fv \<noteq> 0 then
            let u_c = - fv * cos (fl_psi - psi);
                u_rc = u - u_c;
                v_c = fv * sin (fl_psi - psi);
                v_rc = vm - v_c;
                g_rc = \<bar>- atan2 v_rc u_rc\<bar>;
                A_Fc = ship_B (prm os) * ship_d (prm os) * C_b (prm os)
            in
            bnd (self_C_X os g_rc) (\<lambda>cx.
              let xc = 0.5 * rho (prm os) * A_Fc * cx * \<bar>u_rc\<bar> * u_rc;
                  A_Lc = Lpp (prm os) * ship_d (prm os) * C_b (prm os)
              in
              bnd (self_C_Y os g_rc) (\<lambda>cy.
                let yc = 0.5 * rho (prm os) * A_Lc * cy * \<bar>v_rc\<bar> * v_rc in
                bnd (self_C_N os g_rc) (\<lambda>cn.
                  let nc = 0.5 * rho (prm os) * A_Lc * Lpp (prm os) * cn * \<bar>v_rc\<bar> * v_rc
                  in Inr (xc, yc, nc))))
          else Inr (0, 0, 0))"

text \<open>
  The force and moment terms of \<open>_mmg_dynamics\<close> (lines 141 to 286), kept in a record so
  that statements can refer to them.
\<close>

record forces =
  F_N :: real
  X_H :: real
  X_R :: real
  X_P :: real
  Y_H :: real
  Y_R :: real
  N_H :: real
  N_R :: real
  X_C :: real
  Y_C :: real
  N_C :: real

definition mmg_forces :: "kvlcc2 \<Rightarrow> vec6 \<Rightarrow> real \<Rightarrow> real option \<Rightarrow> error + forces" where
  "mmg_forces os y fl_psi fl_vel =
     (case y of (_, _, psi, u, v, r) \<Rightarrow>
      bnd (mmg_drift os u v r) (\<lambda>(vm, U, beta, v_dash, r_dash).
      bnd (mmg_propeller os u beta r_dash) (\<lambda>(w_P, J, K_T).
      bnd (mmg_rudder os u U beta r_dash w_P J K_T) (\<lambda>fn.
        let x_H = x_H_dash (prm os) * Lpp (prm os);
            F0 = \<lparr>
              F_N = fn,
              X_H = 0.5 * rho (prm os) * Lpp (prm os) * ship_d (prm os) * (U ^ 2) * (
                  - R_0_dash (prm os)
                  + X_vv_dash (prm os) * (v_dash ^ 2)
                  + X_vr_dash (prm os) * v_dash * r_dash
                  + X_rr_dash (prm os) * (r_dash ^ 2)
                  + X_vvvv_dash (prm os) * (v_dash ^ 4)),
              X_R = - (1 - t_R (prm os)) * fn * sin (rud_angle os),
              X_P = (1 - t_P (prm os)) * rho (prm os) * K_T * nps os ^ 2 * D_p (prm os) ^ 4,
              Y_H = 0.5 * rho (prm os) * Lpp (prm os) * ship_d (prm os) * (U ^ 2) * (
                  Y_v_dash (prm os) * v_dash
                  + Y_r_dash (prm os) * r_dash
                  + Y_vvv_dash (prm os) * (v_dash ^ 3)
                  + Y_vvr_dash (prm os) * (v_dash ^ 2) * r_dash
                  + Y_vrr_dash (prm os) * v_dash * (r_dash ^ 2)
                  + Y_rrr_dash (prm os) * (r_dash ^ 3)),
              Y_R = - (1 + a_H (prm os)) * fn * cos (rud_angle os),
              N_H = 0.5 * rho (prm os) * (Lpp (prm os) ^ 2) * ship_d (prm os) * (U ^ 2) * (
                  N_v_dash (prm os) * v_dash
                  + N_r_dash (prm os) * r_dash
                  + N_vvv_dash (prm os) * (v_dash ^ 3)
                  + N_vvr_dash (prm os) * (v_dash ^ 2) * r_dash
                  + N_vrr_dash (prm os) * v_dash * (r_dash ^ 2)
                  + N_rrr_dash (prm os) * (r_dash ^ 3)),
              N_R = - ((- 1 / 2) + a_H (prm os) * x_H) * fn * cos (rud_angle os),
              X_C = 0, Y_C = 0, N_C = 0 \<rparr>
        in
        bnd (current_forces os psi u vm fl_psi fl_vel) (\<lambda>(xc, yc, nc).
          Inr (F0\<lparr>X_C := xc, Y_C := yc, N_C := nc\<rparr>))))))"

text \<open>Lines 288 to 315: the accelerations and the pose rate, \<open>[eta_dot, nu_dot]\<close>.\<close>

definition mmg_dynamics :: "kvlcc2 \<Rightarrow> real \<Rightarrow> vec6 \<Rightarrow> real \<Rightarrow> real option \<Rightarrow> error + vec6" where
  "mmg_dynamics os t y fl_psi fl_vel =
     (case y of (_, _, psi, u, v, r) \<Rightarrow>
      bnd (mmg_forces os y fl_psi fl_vel) (\<lambda>F.
        let m_x = m_x_dash (prm os) * (0.5 * rho (prm os) * (Lpp (prm os) ^ 2) * ship_d (prm os));
            m_y = m_y_dash (prm os) * (0.5 * rho (prm os) * (Lpp (prm os) ^ 2) * ship_d (prm os));
            J_z = J_z_dash (prm os) * (0.5 * rho (prm os) * (Lpp (prm os) ^ 4) * ship_d (prm os));
            m = ship_m (prm os);
            I_z = I_zG (prm os);
            xG = x_G (prm os)
        in
        bnd (py_div ((X_H F + X_R F + X_P F + X_C F) + (m + m_y) * v * r + xG * m * (r ^ 2))
                    (m + m_x)) (\<lambda>d_u.
        let f = I_z + J_z + (xG ^ 2) * m in
        bnd (py_div (xG * m * (N_H F + N_R F + N_C F)) f) (\<lambda>q1.
        bnd (py_div (xG ^ 2 * m ^ 2 * u * r) f) (\<lambda>q2.
        bnd (py_div (xG ^ 2 * m ^ 2) f) (\<lambda>q3.
        bnd (py_div ((Y_H F + Y_R F + Y_C F) - (m + m_x) * u * r - q1 + q2)
                    ((m + m_y) - q3)) (\<lambda>d_v.
        bnd (py_div ((N_H F + N_R F + N_C F) - (xG * m * d_v + xG * m * u * r))
                    (I_z + J_z + (xG ^ 2) * m)) (\<lambda>d_r.
          case np_dot (T_of_psi psi) (u, v, r) of (dN, dE, dpsi) \<Rightarrow>
            Inr (dN, dE, dpsi, d_u, d_v, d_r)))))))))"

subsection \<open>The integration step\<close>

text \<open>
  \<open>solve_ivp\<close> is SciPy's integrator and \<open>angle_to_2pi\<close> comes from FossenFnc; both are
  parameters. The integrator gets the right-hand side, the time span, the initial
  value and the evaluation time, and returns the solution there. The right-hand side
  handed over is \<open>_mmg_dynamics\<close> with \<open>args = (0.0, 0.0)\<close>, that is \<open>fl_psi = 0.0\<close> and
  \<open>fl_vel = 0.0\<close>.
\<close>

type_synonym solver =
  "(real \<Rightarrow> vec6 \<Rightarrow> error + vec6) \<Rightarrow> real \<times> real \<Rightarrow> vec6 \<Rightarrow> real \<Rightarrow> error + vec6"

definition np_concatenate :: "vec3 \<Rightarrow> vec3 \<Rightarrow> vec6" where
  "np_concatenate a b = (case a of (a1, a2, a3) \<Rightarrow> case b of (b1, b2, b3) \<Rightarrow> (a1, a2, a3, b1, b2, b3))"

definition upd_rhs :: "kvlcc2 \<Rightarrow> real \<Rightarrow> vec6 \<Rightarrow> error + vec6" where
  "upd_rhs os t y = mmg_dynamics os t y 0.0 (Some 0.0)"

definition upd_dynamics :: "solver \<Rightarrow> (real \<Rightarrow> real) \<Rightarrow> kvlcc2 \<Rightarrow> (error + unit) \<times> kvlcc2" where
  "upd_dynamics solve_ivp angle_to_2pi os =
     (let os1 = os\<lparr>nu_old := Some (nu os)\<rparr> in
      case solve_ivp (upd_rhs os1) (0.0, delta_t os1) (np_concatenate (eta os1) (nu os1)) (delta_t os1) of
        Inl e \<Rightarrow> (Inl e, os1)
      | Inr (y1, y2, y3, y4, y5, y6) \<Rightarrow>
          let os2 = os1\<lparr>eta := (y1, y2, y3), nu := (y4, y5, y6)\<rparr>;
              os3 = os2\<lparr>eta := (y1, y2, angle_to_2pi y3)\<rparr>
          in
          case nu os of (u_old, v_old, r_old) \<Rightarrow>
          case bnd (py_div (y4 - u_old) (delta_t os3)) (\<lambda>du.
               bnd (py_div (y5 - v_old) (delta_t os3)) (\<lambda>dv.
               bnd (py_div (y6 - r_old) (delta_t os3)) (\<lambda>dr. Inr (du, dv, dr)))) of
            Inl e \<Rightarrow> (Inl e, os3)
          | Inr nd \<Rightarrow> (Inr (), os3\<lparr>nu_dot := nd\<rparr>))"

section \<open>The environment (HHOS\_Env.py)\<close>

subsection \<open>Data and collaborators\<close>

text \<open>
  The modules HHOS\_Fnc and VesselFnc are not among the sources. Their functions
  \<open>angle_to_2pi\<close>, \<open>xy_from_polar\<close>, \<open>to_latlon\<close>, \<open>Z_at_latlon\<close> and \<open>VFG\<close>, and SciPy's
  \<open>solve_ivp\<close>, are fields of a record of collaborators that every operation of the
  environment takes as an argument.
\<close>

record desired_path =
  n_wps :: int
  path_lat :: "real list"
  path_lon :: "real list"
  north :: "real list"
  east :: "real list"

record depth_data =
  depth_grid :: "real list list"
  depth_lat :: "real list"
  depth_lon :: "real list"

record flow_data =
  speed_mps :: "real list list"
  angle_grid :: "real list list"
  flow_lat :: "real list"
  flow_lon :: "real list"

record collab =
  angle_to_2pi :: "real \<Rightarrow> real"
  xy_from_polar :: "real \<Rightarrow> real \<Rightarrow> real \<times> real"
  to_latlon :: "real \<Rightarrow> real \<Rightarrow> int \<Rightarrow> real \<times> real"
  Z_at_latlon :: "real list list \<Rightarrow> real list \<Rightarrow> real list \<Rightarrow> real \<Rightarrow> real \<Rightarrow> real"
  VFG :: "real \<Rightarrow> real \<Rightarrow> real \<Rightarrow> real \<Rightarrow> real \<Rightarrow> real \<Rightarrow> real \<Rightarrow> real \<times> real \<times> real"
  solve_ivp :: solver

text \<open>
  The attributes of the environment that the modelled methods read or write.
  \<open>OS_utm_number\<close> is the attribute \<open>utm_number\<close> that \<open>reset\<close> attaches to the vessel;
  \<open>env_delta_t\<close> and \<open>env_r\<close> are the attributes \<open>delta_t\<close> and \<open>r\<close>.
\<close>

record hhos_env =
  env_delta_t :: real
  lidar_range :: real
  lidar_n_beams :: nat
  lidar_beam_angles :: "real list"
  n_dots_per_beam :: nat
  d_dots_per_beam :: "real list"
  sense_depth :: real
  VFG_K :: real
  DesiredPath :: desired_path
  DepthData :: depth_data
  WindData :: flow_data
  CurrentData :: flow_data
  env_r :: real
  OS :: kvlcc2
  OS_utm_number :: int
  wp1_idx :: int
  wp1_N :: real
  wp1_E :: real
  wp2_idx :: int
  wp2_N :: real
  wp2_E :: real
  step_cnt :: int
  sim_t :: real
  state :: "real list"

definition depth_at_latlon :: "collab \<Rightarrow> hhos_env \<Rightarrow> real \<Rightarrow> real \<Rightarrow> real" where
  "depth_at_latlon c env lat_q lon_q =
     Z_at_latlon c (depth_grid (DepthData env)) (depth_lat (DepthData env))
       (depth_lon (DepthData env)) lat_q lon_q"

definition current_at_latlon :: "collab \<Rightarrow> hhos_env \<Rightarrow> real \<Rightarrow> real \<Rightarrow> real \<times> real" where
  "current_at_latlon c env lat_q lon_q =
     (let speed = Z_at_latlon c (speed_mps (CurrentData env)) (flow_lat (CurrentData env))
                    (flow_lon (CurrentData env)) lat_q lon_q;
          angle = angle_to_2pi c (Z_at_latlon c (angle_grid (CurrentData env))
                    (flow_lat (CurrentData env)) (flow_lon (CurrentData env)) lat_q lon_q)
      in (speed, angle))"

definition wind_at_latlon :: "collab \<Rightarrow> hhos_env \<Rightarrow> real \<Rightarrow> real \<Rightarrow> real \<times> real" where
  "wind_at_latlon c env lat_q lon_q =
     (let speed = Z_at_latlon c (speed_mps (WindData env)) (flow_lat (WindData env))
                    (flow_lon (WindData env)) lat_q lon_q;
          angle = angle_to_2pi c (Z_at_latlon c (angle_grid (WindData env))
                    (flow_lat (WindData env)) (flow_lon (WindData env)) lat_q lon_q)
      in (speed, angle))"

subsection \<open>LiDAR\<close>

text \<open>
  \<open>np.log\<close> of a non-positive number is \<open>-inf\<close> or \<open>nan\<close>; like a zero divisor it is an
  error of the model.
\<close>

definition np_log :: "real \<Rightarrow> error + real" where
  "np_log a = (if a \<le> 0 then Inl ValueError else Inr (ln a))"

text \<open>\<open>_get_closeness_from_lidar\<close>, for one entry of the array and for the array.\<close>

definition closeness_of :: "hhos_env \<Rightarrow> real \<Rightarrow> error + real" where
  "closeness_of env d =
     bnd (np_log (d + 1)) (\<lambda>a.
     bnd (np_log (lidar_range env + 1)) (\<lambda>b.
     bnd (py_div a b) (\<lambda>q. Inr (np_clip (1 - q) 0 1))))"

fun get_closeness_from_lidar :: "hhos_env \<Rightarrow> real list \<Rightarrow> error + real list" where
  "get_closeness_from_lidar env [] = Inr []"
| "get_closeness_from_lidar env (d # dists) =
     bnd (closeness_of env d) (\<lambda>x.
     bnd (get_closeness_from_lidar env dists) (\<lambda>xs. Inr (x # xs)))"

text \<open>
  The position in latitude and longitude of the sub-point of a beam at distance \<open>dst\<close> (\<open>dist\<close> in the source),
  and the water depth there (the body of the inner loop of \<open>_sense_LiDAR\<close> up to the
  depth test).
\<close>

definition dot_latlon :: "collab \<Rightarrow> hhos_env \<Rightarrow> real \<Rightarrow> real \<Rightarrow> real \<Rightarrow> real \<Rightarrow> real \<times> real" where
  "dot_latlon c env N0 E0 angle dst =
     (case xy_from_polar c dst angle of (delta_E_dot, delta_N_dot) \<Rightarrow>
        let N_dot = N0 + delta_N_dot;
            E_dot = E0 + delta_E_dot
        in to_latlon c N_dot E_dot (OS_utm_number env))"

definition dot_depth :: "collab \<Rightarrow> hhos_env \<Rightarrow> real \<Rightarrow> real \<Rightarrow> real \<Rightarrow> real \<Rightarrow> real" where
  "dot_depth c env N0 E0 angle dst =
     (case dot_latlon c env N0 E0 angle dst of (lat_dot, lon_dot) \<Rightarrow>
        depth_at_latlon c env lat_dot lon_dot)"

text \<open>
  The inner loop over the sub-points of one beam: the distance of the first sub-point
  whose depth is at most \<open>sense_depth\<close> (where the loop breaks), if there is one, and the
  points appended to \<open>out_lat_lon\<close>.
\<close>

fun beam_dots ::
  "collab \<Rightarrow> hhos_env \<Rightarrow> real \<Rightarrow> real \<Rightarrow> real \<Rightarrow> real list \<Rightarrow> real option \<times> (real \<times> real) list" where
  "beam_dots c env N0 E0 angle [] = (None, [])"
| "beam_dots c env N0 E0 angle (dst # dists) =
     (if dot_depth c env N0 E0 angle dst \<le> sense_depth env
      then (Some dst, [dot_latlon c env N0 E0 angle dst])
      else
        case beam_dots c env N0 E0 angle dists of (hit, pts) \<Rightarrow>
          (hit, (if dst = lidar_range env then [dot_latlon c env N0 E0 angle dst] else []) @ pts))"

text \<open>
  The outer loop over \<open>enumerate(lidar_beam_angles)\<close>. Writing \<open>out_dists[out_idx]\<close>
  outside the array raises IndexError.
\<close>

fun sense_beams ::
  "collab \<Rightarrow> hhos_env \<Rightarrow> real \<Rightarrow> real \<Rightarrow> real \<Rightarrow> (nat \<times> real) list
     \<Rightarrow> real list \<times> (real \<times> real) list \<Rightarrow> error + (real list \<times> (real \<times> real) list)" where
  "sense_beams c env N0 E0 head0 [] acc = Inr acc"
| "sense_beams c env N0 E0 head0 ((out_idx, angle) # rest) (out_dists, out_lat_lon) =
     (case beam_dots c env N0 E0 (angle_to_2pi c (angle + head0)) (d_dots_per_beam env) of
        (None, pts) \<Rightarrow> sense_beams c env N0 E0 head0 rest (out_dists, out_lat_lon @ pts)
      | (Some dst, pts) \<Rightarrow>
          if out_idx < length out_dists
          then sense_beams c env N0 E0 head0 rest (out_dists[out_idx := dst], out_lat_lon @ pts)
          else Inl IndexError)"

definition sense_LiDAR :: "collab \<Rightarrow> hhos_env \<Rightarrow> error + (real list \<times> (real \<times> real) list)" where
  "sense_LiDAR c env =
     (case eta (OS env) of (N0, E0, head0) \<Rightarrow>
        sense_beams c env N0 E0 head0 (enumerate 0 (lidar_beam_angles env))
          (replicate (lidar_n_beams env) (lidar_range env), []))"

subsection \<open>Observation\<close>

definition set_state :: "collab \<Rightarrow> hhos_env \<Rightarrow> (error + unit) \<times> hhos_env" where
  "set_state c env =
     (case eta (OS env) of (N0, E0, _) \<Rightarrow>
      case nu (OS env) of (u, v, r) \<Rightarrow>
      case nu_dot (OS env) of (_, _, r_dot) \<Rightarrow>
      case bnd (py_div (rud_angle (OS env)) (rud_angle_max (OS env))) (\<lambda>rud.
             let cmp1 = [u / 7.0, v / 0.7, r / 0.004];
                 cmp2 = [r_dot / (8 / 10 ^ 5), rud];
                 state_OS = cmp1 @ cmp2
             in
             case VFG c (wp1_N env) (wp1_E env) (wp2_N env) (wp2_E env) N0 E0 (VFG_K env) of
               (ye, desired_course, _) \<Rightarrow>
             bnd (py_div ye (Lpp (prm (OS env)))) (\<lambda>ye_L.
               let state_path = [ye_L, desired_course / pi] in
               bnd (sense_LiDAR c env) (\<lambda>(dists, _).
               bnd (get_closeness_from_lidar env dists) (\<lambda>state_LiDAR.
                 Inr (state_OS @ state_path @ state_LiDAR))))) of
        Inl e \<Rightarrow> (Inl e, env)
      | Inr st \<Rightarrow> (Inr (), env\<lparr>state := st\<rparr>))"

subsection \<open>Waypoints\<close>

text \<open>
  Modelled from the spec: \<open>switch_wp\<close> of the module HHOS\_Fnc is not among the sources.
  The specification defines the test as: true iff the along-track projection of the
  position onto the segment from \<open>wp1\<close> to \<open>wp2\<close> strictly exceeds the segment length;
  exact equality is "not yet passed". It requires a zero-length segment to be handled
  by an explicit branch that never divides by the segment length, but does not say
  what the test returns there: the branch below returns \<open>False\<close>, and every statement
  about the value of the test is for a segment of non-zero length. The arithmetic is
  exact; the rounding of the absent function is unknown.
\<close>

definition switch_wp :: "real \<Rightarrow> real \<Rightarrow> real \<Rightarrow> real \<Rightarrow> real \<Rightarrow> real \<Rightarrow> bool" where
  "switch_wp w1_N w1_E w2_N w2_E a_N a_E =
     (let seg_len = sqrt ((w2_N - w1_N) ^ 2 + (w2_E - w1_E) ^ 2) in
      if seg_len = 0 then False
      else
        let along = ((a_N - w1_N) * (w2_N - w1_N) + (a_E - w1_E) * (w2_E - w1_E)) / seg_len
        in along > seg_len)"

text \<open>
  Reading \<open>xs[i]\<close> from a NumPy array of length \<open>n\<close>: indices from \<open>-n\<close> to \<open>-1\<close> address the
  array from its end, and anything outside \<open>-n .. n-1\<close> raises IndexError.
\<close>

definition np_index :: "real list \<Rightarrow> int \<Rightarrow> error + real" where
  "np_index xs i =
     (if 0 \<le> i \<and> i < int (length xs) then Inr (xs ! nat i)
      else if - int (length xs) \<le> i \<and> i < 0 then Inr (xs ! nat (int (length xs) + i))
      else Inl IndexError)"

definition update_wps :: "hhos_env \<Rightarrow> (error + unit) \<times> hhos_env" where
  "update_wps env =
     (case eta (OS env) of (a_N, a_E, _) \<Rightarrow>
      let switch = switch_wp (wp1_N env) (wp1_E env) (wp2_N env) (wp2_E env) a_N a_E in
      if switch \<and> wp2_idx env \<noteq> n_wps (DesiredPath env) - 1 then
        let env1 = env\<lparr>wp1_idx := wp1_idx env + 1\<rparr>;
            env2 = env1\<lparr>wp1_N := wp2_N env1\<rparr>;
            env3 = env2\<lparr>wp1_E := wp2_E env2\<rparr>;
            env4 = env3\<lparr>wp2_idx := wp2_idx env3 + 1\<rparr>
        in
        case np_index (north (DesiredPath env4)) (wp2_idx env4) of
          Inl e \<Rightarrow> (Inl e, env4)
        | Inr n \<Rightarrow>
            let env5 = env4\<lparr>wp2_N := n\<rparr> in
            (case np_index (east (DesiredPath env5)) (wp2_idx env5) of
               Inl e \<Rightarrow> (Inl e, env5)
             | Inr e \<Rightarrow> (Inr (), env5\<lparr>wp2_E := e\<rparr>))
      else (Inr (), env))"

text \<open>
  The environment after one call of \<open>_update_wps\<close> for each of a list of vessel
  positions (the pose the dynamics left before the call).
\<close>

definition update_wps_seq :: "hhos_env \<Rightarrow> vec3 list \<Rightarrow> hhos_env" where
  "update_wps_seq env poses =
     foldl (\<lambda>e p. snd (update_wps (e\<lparr>OS := (OS e)\<lparr>eta := p\<rparr>\<rparr>))) env poses"

subsection \<open>The step\<close>

text \<open>
  A call with keyword arguments: Python raises TypeError at the first keyword that is
  not a parameter of the function. \<open>_upd_dynamics(self)\<close> declares no parameter besides
  \<open>self\<close>.
\<close>

definition upd_dynamics_params :: "string list" where
  "upd_dynamics_params = []"

definition call_upd_dynamics ::
  "collab \<Rightarrow> kvlcc2 \<Rightarrow> (string \<times> real option) list \<Rightarrow> (error + unit) \<times> kvlcc2" where
  "call_upd_dynamics c os kwargs =
     (case filter (\<lambda>k. k \<notin> set upd_dynamics_params) (map fst kwargs) of
        [] \<Rightarrow> upd_dynamics (solve_ivp c) (angle_to_2pi c) os
      | k # _ \<Rightarrow>
          (Inl (TypeError (''_upd_dynamics() got an unexpected keyword argument '' @ k)), os))"

text \<open>
  \<open>_done\<close> returns \<open>False\<close>. In \<open>step\<close>, the depth sampled into \<open>H\<close> is overwritten by
  \<open>None\<close> and the value of \<open>_calculate_reward\<close> (always 0.0) is dropped; the reward
  returned is the attribute \<open>r\<close>. Both calls have no effect and are left out.
\<close>

definition env_done :: "hhos_env \<Rightarrow> bool" where
  "env_done env = False"

definition step :: "collab \<Rightarrow> hhos_env \<Rightarrow> int \<Rightarrow> (error + (real list \<times> real \<times> bool)) \<times> hhos_env" where
  "step c env a =
     (case control (OS env) a of
        (Inl e, os1) \<Rightarrow> (Inl e, env\<lparr>OS := os1\<rparr>)
      | (Inr _, os1) \<Rightarrow>
          let env1 = env\<lparr>OS := os1\<rparr> in
          case eta (OS env1) of (N0, E0, _) \<Rightarrow>
          case to_latlon c N0 E0 (OS_utm_number env1) of (OS_lat, OS_lon) \<Rightarrow>
          case current_at_latlon c env1 OS_lat OS_lon of (V_c, beta_c) \<Rightarrow>
          case wind_at_latlon c env1 OS_lat OS_lon of (V_w, beta_w) \<Rightarrow>
          case call_upd_dynamics c (OS env1)
                 [(''V_w'', Some V_w), (''beta_w'', Some beta_w), (''V_c'', Some V_c),
                  (''beta_c'', Some beta_c), (''H'', None), (''beta_wave'', None),
                  (''eta_wave'', None), (''T_0_wave'', None), (''lambda_wave'', None)] of
            (Inl e, os2) \<Rightarrow> (Inl e, env1\<lparr>OS := os2\<rparr>)
          | (Inr _, os2) \<Rightarrow>
              let env2 = env1\<lparr>OS := os2\<rparr> in
              (case update_wps env2 of
                 (Inl e, env3) \<Rightarrow> (Inl e, env3)
               | (Inr _, env3) \<Rightarrow>
                   let env4 = env3\<lparr>step_cnt := step_cnt env3 + 1\<rparr>;
                       env5 = env4\<lparr>sim_t := sim_t env4 + env_delta_t env4\<rparr>
                   in
                   (case set_state c env5 of
                      (Inl e, env6) \<Rightarrow> (Inl e, env6)
                    | (Inr _, env6) \<Rightarrow>
                        (Inr (state env6, env_r env6, env_done env6), env6))))"

section \<open>Example values\<close>

text \<open>
  Concrete values for the examples that accompany the theorems: the usual
  degree-to-radian conversion for the missing \<open>dtr\<close>, exact and in doubles; simple stand-ins for the
  collaborators (the polar conversion, an identity projection, a field sampler that
  returns the first grid value, a guidance law that returns zeros and an integrator that
  returns its initial value); and a small environment with a path of three waypoints,
  two beams with two sub-points each, water 40 m deep everywhere, and the vessel at the
  second waypoint.
\<close>

definition dtr_std :: "real \<Rightarrow> real" where
  "dtr_std x = x * pi / 180"

text \<open>
  The same conversion in doubles, \<open>angle * math.pi / 180\<close>, with \<open>math.pi\<close> the double
  nearest to \<open>pi\<close>; and the vessel that the constructor builds with it for
  \<open>delta_t = 1.0\<close>.
\<close>

definition pi_f64 :: real where
  "pi_f64 = 884279719003555 / 2 ^ 48"

definition dtr_f64 :: "real \<Rightarrow> real" where
  "dtr_f64 x = round_f64 (round_f64 (x * pi_f64) / 180)"

definition os_f64 :: kvlcc2 where
  "os_f64 = KVLCC2_init dtr_f64 0 0 0 0 0 0 1 1 1"

definition collab_ex :: collab where
  "collab_ex = \<lparr>
     angle_to_2pi = (\<lambda>x. x),
     xy_from_polar = (\<lambda>r a. (r * sin a, r * cos a)),
     to_latlon = (\<lambda>n e k. (n, e)),
     Z_at_latlon = (\<lambda>Z lats lons la lo. case Z of [] \<Rightarrow> 0 | row # _ \<Rightarrow> (case row of [] \<Rightarrow> 0 | z # _ \<Rightarrow> z)),
     VFG = (\<lambda>N1 E1 N2 E2 NA EA K. (0, 0, 0)),
     solve_ivp = (\<lambda>f span y0 t. Inr y0) \<rparr>"

definition env_ex :: hhos_env where
  "env_ex = \<lparr>
     env_delta_t = 3,
     lidar_range = 100,
     lidar_n_beams = 2,
     lidar_beam_angles = [0, pi],
     n_dots_per_beam = 10,
     d_dots_per_beam = [50, 100],
     sense_depth = 15,
     VFG_K = 0.001,
     DesiredPath = \<lparr> n_wps = 3, path_lat = [0, 10, 20], path_lon = [0, 0, 0],
                     north = [0, 10, 20], east = [0, 0, 0] \<rparr>,
     DepthData = \<lparr> depth_grid = [[40]], depth_lat = [0], depth_lon = [0] \<rparr>,
     WindData = \<lparr> speed_mps = [[5]], angle_grid = [[0]], flow_lat = [0], flow_lon = [0] \<rparr>,
     CurrentData = \<lparr> speed_mps = [[1 / 2]], angle_grid = [[0]], flow_lat = [0], flow_lon = [0] \<rparr>,
     env_r = 0,
     OS = KVLCC2_init dtr_std 10 0 0 5 0 0 3 1 1,
     OS_utm_number = 32,
     wp1_idx = 0, wp1_N = 0, wp1_E = 0,
     wp2_idx = 1, wp2_N = 10, wp2_E = 0,
     step_cnt = 0, sim_t = 0, state = [] \<rparr>"

section \<open>Properties\<close>

subsection \<open>Rudder control\<close>

lemma np_clip_bounds: "- mx \<le> mx \<Longrightarrow> - mx \<le> np_clip x (- mx) mx \<and> np_clip x (- mx) mx \<le> mx"
  by (simp add: np_clip_def)

lemma control_rud_angle_max: "rud_angle_max (snd (control os a)) = rud_angle_max os"
  by (simp add: control_def Let_def)

lemma control_rud_angle_inc: "rud_angle_inc (snd (control os a)) = rud_angle_inc os"
  by (simp add: control_def Let_def)

lemma control_keeps_bounds:
  assumes "- rud_angle_max os \<le> rud_angle os" "rud_angle os \<le> rud_angle_max os"
  shows "- rud_angle_max os \<le> rud_angle (snd (control os a)) \<and> rud_angle (snd (control os a)) \<le> rud_angle_max os"
  using assms by (simp add: control_def Let_def np_clip_def)

lemma control_seq_bounds:
  assumes "- rud_angle_max os \<le> rud_angle os" "rud_angle os \<le> rud_angle_max os"
  shows "rud_angle_max (control_seq os acts) = rud_angle_max os \<and>
         - rud_angle_max os \<le> rud_angle (control_seq os acts) \<and>
         rud_angle (control_seq os acts) \<le> rud_angle_max os"
  using assms
proof (induction acts arbitrary: os)
  case Nil
  then show ?case by (simp add: control_seq_def)
next
  case (Cons a acts)
  let ?s = "snd (control os a)"
  have m: "rud_angle_max ?s = rud_angle_max os" by (rule control_rud_angle_max)
  have b: "- rud_angle_max ?s \<le> rud_angle ?s \<and> rud_angle ?s \<le> rud_angle_max ?s"
    using control_keeps_bounds [OF Cons.prems] m by simp
  have "control_seq os (a # acts) = control_seq ?s acts" by (simp add: control_seq_def)
  with Cons.IH [of ?s] b m show ?case by simp
qed

lemma np_clip_id: "a_min \<le> a \<Longrightarrow> a \<le> a_max \<Longrightarrow> np_clip a a_min a_max = a"
  by (simp add: np_clip_def)

text \<open>
  Claim C6. The vessel is constructed with rudder angle 0. After any finite sequence of
  calls of \<open>_control\<close>, whatever the actions are (a call with an action outside 0, 1, 2
  raises and leaves the vessel as it was), the rudder angle lies between
  \<open>- rud_angle_max\<close> and \<open>rud_angle_max\<close>. Every prefix of a sequence is a sequence, so the
  bound holds after every single call. The bound \<open>rud_angle_max = dtr(10)\<close> has to be
  non-negative, which is all that is assumed about the missing \<open>dtr\<close>.
\<close>

theorem rudder_within_bounds:
  assumes "0 \<le> dtr 10"
  shows "- rud_angle_max (KVLCC2_init dtr N0 E0 psi0 u0 v0 r0 dt Nmx Emx)
           \<le> rud_angle (control_seq (KVLCC2_init dtr N0 E0 psi0 u0 v0 r0 dt Nmx Emx) acts) \<and>
         rud_angle (control_seq (KVLCC2_init dtr N0 E0 psi0 u0 v0 r0 dt Nmx Emx) acts)
           \<le> rud_angle_max (KVLCC2_init dtr N0 E0 psi0 u0 v0 r0 dt Nmx Emx)"
proof -
  let ?os = "KVLCC2_init dtr N0 E0 psi0 u0 v0 r0 dt Nmx Emx"
  have "- rud_angle_max ?os \<le> rud_angle ?os" "rud_angle ?os \<le> rud_angle_max ?os"
    using assms by (simp_all add: KVLCC2_init_def)
  from control_seq_bounds [OF this] show ?thesis by simp
qed

theorem rudder_within_bounds_witness:
  "0 \<le> dtr_std 10 \<and>
   (- rud_angle_max (KVLCC2_init dtr_std 0 0 0 0 0 0 3 1 1)
      \<le> rud_angle (control_seq (KVLCC2_init dtr_std 0 0 0 0 0 0 3 1 1) [1, 1, 2, 7, 0]) \<and>
    rud_angle (control_seq (KVLCC2_init dtr_std 0 0 0 0 0 0 3 1 1) [1, 1, 2, 7, 0])
      \<le> rud_angle_max (KVLCC2_init dtr_std 0 0 0 0 0 0 3 1 1))"
proof -
  have h: "0 \<le> dtr_std 10" by (simp add: dtr_std_def)
  show ?thesis
    using h rudder_within_bounds [of dtr_std 0 0 0 0 0 0 3 1 1 "[1, 1, 2, 7, 0]", OF h] by blast
qed

lemma call_upd_dynamics_fails:
  "call_upd_dynamics c os
     [(''V_w'', x1), (''beta_w'', x2), (''V_c'', x3), (''beta_c'', x4), (''H'', x5),
      (''beta_wave'', x6), (''eta_wave'', x7), (''T_0_wave'', x8), (''lambda_wave'', x9)]
   = (Inl (TypeError ''_upd_dynamics() got an unexpected keyword argument V_w''), os)"
  by (simp add: call_upd_dynamics_def upd_dynamics_params_def)

lemma step_outcome:
  "step c env a =
     (case control (OS env) a of
        (Inl e, os1) \<Rightarrow> (Inl e, env\<lparr>OS := os1\<rparr>)
      | (Inr _, os1) \<Rightarrow>
          (Inl (TypeError ''_upd_dynamics() got an unexpected keyword argument V_w''),
           env\<lparr>OS := os1\<rparr>))"
  unfolding step_def
  by (simp add: call_upd_dynamics_fails Let_def split: prod.splits sum.splits)

text \<open>
  Claim C7. Action 0 keeps the rudder angle, action 1 adds the increment, action 2 subtracts
  it, and the result is clipped to \<open>[- rud_angle_max, rud_angle_max]\<close>; the increment set by
  the constructor is \<open>dtr(2.5)\<close> (per second) times \<open>delta_t\<close>. Any other action fails at
  once with the assertion error "Unknown action." and the vessel, its rudder angle
  included, is unchanged; \<open>step\<close> passes the error on to its caller and leaves the
  environment unchanged.
\<close>

theorem control_actions:
  "control os 0 = (Inr (), os\<lparr>action := 0,
       rud_angle := np_clip (rud_angle os) (- rud_angle_max os) (rud_angle_max os)\<rparr>) \<and>
   control os 1 = (Inr (), os\<lparr>action := 1,
       rud_angle := np_clip (rud_angle os + rud_angle_inc os) (- rud_angle_max os) (rud_angle_max os)\<rparr>) \<and>
   control os 2 = (Inr (), os\<lparr>action := 2,
       rud_angle := np_clip (rud_angle os - rud_angle_inc os) (- rud_angle_max os) (rud_angle_max os)\<rparr>) \<and>
   (a \<notin> {0, 1, 2} \<longrightarrow>
      control os a = (Inl (AssertionError ''Unknown action.''), os) \<and>
      step c env a = (Inl (AssertionError ''Unknown action.''), env)) \<and>
   rud_angle_inc (KVLCC2_init dtr N0 E0 psi0 u0 v0 r0 dt Nmx Emx) = dtr 2.5 * dt"
proof (intro conjI impI)
  show "rud_angle_inc (KVLCC2_init dtr N0 E0 psi0 u0 v0 r0 dt Nmx Emx) = dtr 2.5 * dt"
    by (simp add: KVLCC2_init_def)
next
  assume "a \<notin> {0, 1, 2}"
  then have "control (OS env) a = (Inl (AssertionError ''Unknown action.''), OS env)"
    by (simp add: control_def)
  then show "step c env a = (Inl (AssertionError ''Unknown action.''), env)"
    by (simp add: step_outcome)
qed (simp_all add: control_def Let_def)

theorem control_actions_witness:
  "(5::int) \<notin> {0, 1, 2} \<and>
   control (KVLCC2_init dtr_std 0 0 0 0 0 0 3 1 1) 5 =
     (Inl (AssertionError ''Unknown action.''), KVLCC2_init dtr_std 0 0 0 0 0 0 3 1 1) \<and>
   step collab_ex env_ex 5 = (Inl (AssertionError ''Unknown action.''), env_ex)"
  using control_actions [of "KVLCC2_init dtr_std 0 0 0 0 0 0 3 1 1" 5 collab_ex env_ex] by simp

subsection \<open>Rudder control in doubles\<close>

lemma round_half_even_error: "\<bar>of_int (round_half_even y) - y\<bar> \<le> 1 / 2"
proof -
  have "of_int \<lfloor>y\<rfloor> \<le> y" "y < of_int \<lfloor>y\<rfloor> + 1" by linarith+
  then show ?thesis
    by (auto simp add: round_half_even_def Let_def)
qed

lemma round_half_even_ge: "of_int n \<le> y \<Longrightarrow> n \<le> round_half_even y"
proof -
  assume "of_int n \<le> y"
  then have "n \<le> \<lfloor>y\<rfloor>" by (simp add: le_floor_iff)
  then show ?thesis by (auto simp add: round_half_even_def Let_def)
qed

lemma round_half_even_le: "y \<le> of_int n \<Longrightarrow> round_half_even y \<le> n"
proof -
  assume a: "y \<le> of_int n"
  have f: "\<lfloor>y\<rfloor> \<le> n" using a by (simp add: floor_le_iff)
  show ?thesis
  proof (cases "y = of_int \<lfloor>y\<rfloor>")
    case True
    then have "y - of_int \<lfloor>y\<rfloor> = 0" by simp
    then show ?thesis using f by (simp add: round_half_even_def Let_def)
  next
    case False
    have "of_int \<lfloor>y\<rfloor> \<le> y" by linarith
    with False have "of_int \<lfloor>y\<rfloor> < y" by linarith
    with a have "(of_int \<lfloor>y\<rfloor> :: real) < of_int n" by linarith
    then have "\<lfloor>y\<rfloor> < n" by simp
    then show ?thesis by (auto simp add: round_half_even_def Let_def)
  qed
qed

lemma round_half_even_int: "round_half_even (of_int n) = n"
  by (simp add: round_half_even_def Let_def)

lemma log2_floor_bounds:
  assumes "0 < x"
  shows "2 powr (of_int \<lfloor>log 2 x\<rfloor>) \<le> x" "x < 2 powr (of_int \<lfloor>log 2 x\<rfloor> + 1)"
proof -
  have x: "2 powr (log 2 x) = x" using assms by simp
  have "of_int \<lfloor>log 2 x\<rfloor> \<le> log 2 x" by linarith
  then have "2 powr (of_int \<lfloor>log 2 x\<rfloor>) \<le> 2 powr (log 2 x)"
    by (intro powr_mono) simp_all
  then show "2 powr (of_int \<lfloor>log 2 x\<rfloor>) \<le> x" unfolding x .
  have "log 2 x < of_int \<lfloor>log 2 x\<rfloor> + 1" by linarith
  then have "2 powr (log 2 x) < 2 powr (of_int \<lfloor>log 2 x\<rfloor> + 1)"
    by (intro powr_less_mono) simp_all
  then show "x < 2 powr (of_int \<lfloor>log 2 x\<rfloor> + 1)" unfolding x .
qed

lemma round_f64_relative_error: "\<bar>round_f64 x - x\<bar> \<le> \<bar>round_f64 x\<bar> / 2 ^ 53"
proof (cases "x = 0")
  case True
  then show ?thesis by (simp add: round_f64_def)
next
  case False
  define e where "e = \<lfloor>log 2 \<bar>x\<bar>\<rfloor>"
  define ulp :: real where "ulp = 2 powr (of_int e - 52)"
  define q :: real where "q = x / ulp"
  define n where "n = round_half_even q"
  have up: "0 < ulp" unfolding ulp_def by simp
  have r: "round_f64 x = ulp * of_int n"
    using False by (simp add: round_f64_def Let_def e_def ulp_def q_def n_def)
  have ax: "0 < \<bar>x\<bar>" using False by simp
  have lo: "2 powr (of_int e) \<le> \<bar>x\<bar>"
    unfolding e_def by (rule log2_floor_bounds(1) [OF ax])
  have s: "ulp * 2 ^ 52 = 2 powr (of_int e)"
    unfolding ulp_def by (simp add: powr_diff)
  have xq: "x = ulp * q" unfolding q_def using up by simp
  have aq: "2 ^ 52 \<le> \<bar>q\<bar>"
  proof -
    have "ulp * 2 ^ 52 \<le> ulp * \<bar>q\<bar>"
      using lo s xq up by (simp add: abs_mult)
    then show ?thesis using up by simp
  qed
  have an: "(2::real) ^ 52 \<le> \<bar>of_int n\<bar>"
  proof (cases "0 \<le> q")
    case True
    then have "of_int (2 ^ 52) \<le> q" using aq by simp
    then have "2 ^ 52 \<le> n" unfolding n_def by (rule round_half_even_ge)
    then have "(2::real) ^ 52 \<le> of_int n" by (metis of_int_le_iff of_int_numeral of_int_power)
    then show ?thesis by linarith
  next
    case False
    then have "q \<le> of_int (- (2 ^ 52))" using aq by simp
    then have "n \<le> - (2 ^ 52)" unfolding n_def by (rule round_half_even_le)
    then have "of_int n \<le> - ((2::real) ^ 52)"
      by (metis of_int_le_iff of_int_minus of_int_numeral of_int_power)
    then show ?thesis by linarith
  qed
  have err: "\<bar>of_int n - q\<bar> \<le> 1 / 2" unfolding n_def by (rule round_half_even_error)
  have "round_f64 x - x = ulp * of_int n - ulp * q"
    using r xq by linarith
  then have "round_f64 x - x = ulp * (of_int n - q)"
    by (simp add: right_diff_distrib)
  then have "\<bar>round_f64 x - x\<bar> = ulp * \<bar>of_int n - q\<bar>"
    using up by (simp add: abs_mult)
  also have "\<dots> \<le> ulp * (1 / 2)" using err up by (intro mult_left_mono) simp_all
  also have "\<dots> = ulp * 2 ^ 52 / 2 ^ 53" by simp
  also have "\<dots> \<le> ulp * \<bar>of_int n\<bar> / 2 ^ 53"
    using an up by (intro divide_right_mono mult_left_mono) simp_all
  also have "\<dots> = \<bar>round_f64 x\<bar> / 2 ^ 53"
    unfolding r using up by (simp add: abs_mult)
  finally show ?thesis .
qed

lemma round_f64_scaled:
  assumes nz: "x \<noteq> 0"
    and lo: "2 ^ 52 \<le> \<bar>x\<bar> * 2 ^ k"
    and hi: "\<bar>x\<bar> * 2 ^ k < 2 ^ 53"
  shows "round_f64 x = of_int (round_half_even (x * 2 ^ k)) / 2 ^ k"
proof -
  have ax: "0 < \<bar>x\<bar>" using nz by simp
  have p: "(2::real) powr (52 - real k) = 2 ^ 52 / 2 ^ k"
    by (simp add: powr_diff powr_realpow)
  have p1: "(2::real) powr (53 - real k) = 2 ^ 53 / 2 ^ k"
    by (simp add: powr_diff powr_realpow)
  have l1: "2 powr (52 - real k) \<le> \<bar>x\<bar>"
    unfolding p using lo by (simp add: field_simps)
  have l2: "\<bar>x\<bar> < 2 powr (53 - real k)"
    unfolding p1 using hi by (simp add: field_simps)
  have "of_int (52 - int k) \<le> log 2 \<bar>x\<bar>"
    using l1 ax by (simp add: le_log_iff)
  moreover have "log 2 \<bar>x\<bar> < of_int (52 - int k) + 1"
    using l2 ax by (simp add: log_less_iff) 
  ultimately have e: "\<lfloor>log 2 \<bar>x\<bar>\<rfloor> = 52 - int k"
    by (simp add: floor_eq_iff)
  have u: "(2::real) powr (- real k) = 1 / 2 ^ k"
    by (simp add: powr_minus powr_realpow divide_simps)
  show ?thesis
    using nz by (simp add: round_f64_def Let_def e u)
qed


lemma control_rnd_exact: "control_rnd (\<lambda>y. y) os a = control os a"
  by (simp add: control_rnd_def control_def)

lemma control_rnd_max: "rud_angle_max (snd (control_rnd rnd os a)) = rud_angle_max os"
  by (simp add: control_rnd_def Let_def)

lemma control_rnd_inc: "rud_angle_inc (snd (control_rnd rnd os a)) = rud_angle_inc os"
  by (simp add: control_rnd_def Let_def)

lemma control_rnd_rud:
  assumes "a = 1 \<or> a = 2"
  shows "rud_angle (snd (control_rnd rnd os a)) =
           np_clip (rud_unclipped rnd os a) (- rud_angle_max os) (rud_angle_max os)"
  using assms by (auto simp add: control_rnd_def rud_unclipped_def Let_def)

lemma control_times_max: "rud_angle_max (control_times rnd k a os) = rud_angle_max os"
  by (induction k) (simp_all add: control_times_def control_rnd_max)

lemma control_times_inc: "rud_angle_inc (control_times rnd k a os) = rud_angle_inc os"
  by (induction k) (simp_all add: control_times_def control_rnd_inc)

lemma control_times_0: "control_times rnd 0 a os = os"
  by (simp add: control_times_def)

lemma control_times_Suc:
  "control_times rnd (Suc k) a os = snd (control_rnd rnd (control_times rnd k a os) a)"
  by (simp add: control_times_def)

text \<open>The clip keeps the rudder angle within its bounds whatever the rounding is.\<close>

lemma control_rnd_keeps_bounds:
  assumes "- rud_angle_max os \<le> rud_angle os" "rud_angle os \<le> rud_angle_max os"
  shows "- rud_angle_max os \<le> rud_angle (snd (control_rnd rnd os a)) \<and>
         rud_angle (snd (control_rnd rnd os a)) \<le> rud_angle_max os"
  using assms by (simp add: control_rnd_def Let_def np_clip_def)

text \<open>
  One unsaturated call moves the rudder angle by the increment up to the rounding error
  of the one addition or subtraction.
\<close>

lemma control_rnd_step_error:
  assumes a: "a = 1 \<or> a = 2"
    and e0: "0 \<le> eps"
    and err: "\<forall>y. \<bar>rnd y - y\<bar> \<le> eps * \<bar>rnd y\<bar>"
    and b: "\<bar>rud_unclipped rnd os a\<bar> \<le> rud_angle_max os"
  shows "\<bar>rud_angle (snd (control_rnd rnd os a))
           - (rud_angle os + (if a = 1 then 1 else - 1) * rud_angle_inc os)\<bar>
         \<le> eps * rud_angle_max os"
proof -
  define y where "y = rud_angle os + (if a = 1 then 1 else - 1) * rud_angle_inc os"
  have u: "rud_unclipped rnd os a = rnd y"
    using a by (auto simp add: rud_unclipped_def y_def)
  have c: "np_clip (rnd y) (- rud_angle_max os) (rud_angle_max os) = rnd y"
    using b unfolding u by (intro np_clip_id) linarith+
  have r: "rud_angle (snd (control_rnd rnd os a)) = rnd y"
    unfolding control_rnd_rud [OF a] u c ..
  have "\<bar>rnd y - y\<bar> \<le> eps * \<bar>rnd y\<bar>" using err by blast
  also have "\<dots> \<le> eps * rud_angle_max os"
    using b e0 unfolding u by (intro mult_left_mono) simp_all
  finally show ?thesis unfolding r y_def .
qed

lemma control_times_error:
  assumes a: "a = 1 \<or> a = 2"
    and e0: "0 \<le> eps"
    and err: "\<forall>y. \<bar>rnd y - y\<bar> \<le> eps * \<bar>rnd y\<bar>"
    and b: "\<forall>j<k. \<bar>rud_unclipped rnd (control_times rnd j a os) a\<bar> \<le> rud_angle_max os"
  shows "\<bar>rud_angle (control_times rnd k a os)
           - (rud_angle os + real k * ((if a = 1 then 1 else - 1) * rud_angle_inc os))\<bar>
         \<le> real k * (eps * rud_angle_max os)"
  using b
proof (induction k)
  case 0
  then show ?case by (simp add: control_times_0)
next
  case (Suc k)
  let ?s = "control_times rnd k a os"
  let ?d = "(if a = 1 then 1 else - 1) * rud_angle_inc os"
  have ih: "\<bar>rud_angle ?s - (rud_angle os + real k * ?d)\<bar> \<le> real k * (eps * rud_angle_max os)"
    using Suc by simp
  have bk: "\<bar>rud_unclipped rnd ?s a\<bar> \<le> rud_angle_max ?s"
    using Suc.prems by (simp add: control_times_max)
  have st: "\<bar>rud_angle (snd (control_rnd rnd ?s a)) - (rud_angle ?s + ?d)\<bar> \<le> eps * rud_angle_max os"
    using control_rnd_step_error [OF a e0 err bk]
    by (simp add: control_times_max control_times_inc)
  have "rud_angle (control_times rnd (Suc k) a os) - (rud_angle os + real (Suc k) * ?d)
        = (rud_angle (snd (control_rnd rnd ?s a)) - (rud_angle ?s + ?d))
          + (rud_angle ?s - (rud_angle os + real k * ?d))"
    by (simp add: control_times_Suc algebra_simps)
  then have "\<bar>rud_angle (control_times rnd (Suc k) a os) - (rud_angle os + real (Suc k) * ?d)\<bar>
        \<le> eps * rud_angle_max os + real k * (eps * rud_angle_max os)"
    using st ih by linarith
  then show ?case by (simp add: algebra_simps)
qed

text \<open>
  Claim C9, amended. Let \<open>rnd\<close> round the result of each addition and subtraction
  with a relative error of at most \<open>eps\<close> (\<open>round_f64\<close> with \<open>eps = 2\<^sup>-\<^sup>5\<^sup>3\<close> for the
  doubles of the code, the identity with \<open>eps = 0\<close> for exact arithmetic). If none of the
  values handed to the clip during \<open>k\<close> calls with action 1 and the following \<open>k\<close>
  calls with action 2 lies outside \<open>[- rud_angle_max, rud_angle_max]\<close>, then after the
  first \<open>k\<close> calls the rudder angle is within \<open>k eps rud_angle_max\<close> of the original
  angle plus \<open>k\<close> increments, and after all \<open>2 k\<close> calls it is within
  \<open>2 k eps rud_angle_max\<close> of the original angle. For \<open>eps = 0\<close> it is the original angle.
\<close>

theorem up_then_down_rounding:
  assumes e0: "0 \<le> eps"
    and err: "\<forall>y. \<bar>rnd y - y\<bar> \<le> eps * \<bar>rnd y\<bar>"
    and up: "\<forall>j<k. \<bar>rud_unclipped rnd (control_times rnd j 1 os) 1\<bar> \<le> rud_angle_max os"
    and down: "\<forall>j<k. \<bar>rud_unclipped rnd (control_times rnd j 2 (control_times rnd k 1 os)) 2\<bar>
                 \<le> rud_angle_max os"
  shows "\<bar>rud_angle (control_times rnd k 1 os) - (rud_angle os + real k * rud_angle_inc os)\<bar>
           \<le> real k * eps * rud_angle_max os \<and>
         \<bar>rud_angle (control_times rnd k 2 (control_times rnd k 1 os)) - rud_angle os\<bar>
           \<le> 2 * real k * eps * rud_angle_max os"
proof -
  let ?mid = "control_times rnd k 1 os"
  have a1: "(1::int) = 1 \<or> (1::int) = 2" and a2: "(2::int) = 1 \<or> (2::int) = 2" by simp_all
  have m: "rud_angle_max ?mid = rud_angle_max os" by (rule control_times_max)
  have i: "rud_angle_inc ?mid = rud_angle_inc os" by (rule control_times_inc)
  have u: "\<bar>rud_angle ?mid - (rud_angle os + real k * rud_angle_inc os)\<bar>
             \<le> real k * (eps * rud_angle_max os)"
    using control_times_error [OF a1 e0 err up] by simp
  have down': "\<forall>j<k. \<bar>rud_unclipped rnd (control_times rnd j 2 ?mid) 2\<bar> \<le> rud_angle_max ?mid"
    using down m by simp
  have d: "\<bar>rud_angle (control_times rnd k 2 ?mid) - (rud_angle ?mid - real k * rud_angle_inc os)\<bar>
             \<le> real k * (eps * rud_angle_max os)"
    using control_times_error [OF a2 e0 err down'] by (simp add: m i)
  have "\<bar>rud_angle (control_times rnd k 2 ?mid) - rud_angle os\<bar>
          \<le> real k * (eps * rud_angle_max os) + real k * (eps * rud_angle_max os)"
    using u d by linarith
  then have r: "\<bar>rud_angle (control_times rnd k 2 ?mid) - rud_angle os\<bar>
          \<le> 2 * real k * eps * rud_angle_max os" by (simp add: algebra_simps)
  have u': "\<bar>rud_angle ?mid - (rud_angle os + real k * rud_angle_inc os)\<bar>
             \<le> real k * eps * rud_angle_max os"
    using u by (simp add: algebra_simps)
  show ?thesis by (rule conjI [OF u' r])
qed

lemma round_f64_eval:
  assumes "x \<noteq> 0" "2 ^ 52 \<le> \<bar>x\<bar> * 2 ^ k" "\<bar>x\<bar> * 2 ^ k < 2 ^ 53"
    and "round_half_even (x * 2 ^ k) = n"
  shows "round_f64 x = of_int n / 2 ^ k"
  using round_f64_scaled [OF assms(1-3)] assms(4) by simp

lemma dtr_f64_10: "dtr_f64 10 = 6288211335136391 / 2 ^ 55"
proof -
  have r1: "round_f64 (10 * pi_f64) = of_int 8842797190035550 / 2 ^ 48"
    by (rule round_f64_eval) (simp_all add: pi_f64_def round_half_even_def)
  have r2: "round_f64 (of_int 8842797190035550 / 2 ^ 48 / 180) = of_int 6288211335136391 / 2 ^ 55"
    by (rule round_f64_eval) (simp_all add: round_half_even_def)
  show ?thesis unfolding dtr_f64_def r1 r2 by simp
qed

lemma dtr_f64_2_5: "dtr_f64 (5 / 2) = 6288211335136391 / 2 ^ 57"
proof -
  have r1: "round_f64 (5 / 2 * pi_f64) = of_int 8842797190035550 / 2 ^ 50"
    by (rule round_f64_eval) (simp_all add: pi_f64_def round_half_even_def)
  have r2: "round_f64 (of_int 8842797190035550 / 2 ^ 50 / 180) = of_int 6288211335136391 / 2 ^ 57"
    by (rule round_f64_eval) (simp_all add: round_half_even_def)
  show ?thesis unfolding dtr_f64_def r1 r2 by simp
qed

lemma os_f64_fields:
  "rud_angle os_f64 = 0" "rud_angle_max os_f64 = 6288211335136391 / 2 ^ 55"
  "rud_angle_inc os_f64 = 6288211335136391 / 2 ^ 57"
  by (simp_all add: os_f64_def KVLCC2_init_def dtr_f64_10 dtr_f64_2_5)

lemma f64_sums:
  "round_f64 (0 + 6288211335136391 / 2 ^ 57) = 6288211335136391 / 2 ^ 57"
  "round_f64 (6288211335136391 / 2 ^ 57 + 6288211335136391 / 2 ^ 57) = 6288211335136391 / 2 ^ 56"
  "round_f64 (6288211335136391 / 2 ^ 56 + 6288211335136391 / 2 ^ 57) = 4716158501352293 / 2 ^ 55"
  "round_f64 (4716158501352293 / 2 ^ 55 - 6288211335136391 / 2 ^ 57) = 3144105667568195 / 2 ^ 55"
  "round_f64 (3144105667568195 / 2 ^ 55 - 6288211335136391 / 2 ^ 57) = 6288211335136389 / 2 ^ 57"
  "round_f64 (6288211335136389 / 2 ^ 57 - 6288211335136391 / 2 ^ 57) = - 1 / 2 ^ 56"
proof -
  have "round_f64 (0 + 6288211335136391 / 2 ^ 57) = of_int 6288211335136391 / 2 ^ 57"
    by (rule round_f64_eval) (simp_all add: round_half_even_def)
  then show "round_f64 (0 + 6288211335136391 / 2 ^ 57) = 6288211335136391 / 2 ^ 57" by simp
  have "round_f64 (6288211335136391 / 2 ^ 57 + 6288211335136391 / 2 ^ 57) = of_int 6288211335136391 / 2 ^ 56"
    by (rule round_f64_eval) (simp_all add: round_half_even_def)
  then show "round_f64 (6288211335136391 / 2 ^ 57 + 6288211335136391 / 2 ^ 57) = 6288211335136391 / 2 ^ 56" by simp
  have "round_f64 (6288211335136391 / 2 ^ 56 + 6288211335136391 / 2 ^ 57) = of_int 4716158501352293 / 2 ^ 55"
    by (rule round_f64_eval) (simp_all add: round_half_even_def)
  then show "round_f64 (6288211335136391 / 2 ^ 56 + 6288211335136391 / 2 ^ 57) = 4716158501352293 / 2 ^ 55" by simp
  have "round_f64 (4716158501352293 / 2 ^ 55 - 6288211335136391 / 2 ^ 57) = of_int 6288211335136390 / 2 ^ 56"
    by (rule round_f64_eval) (simp_all add: round_half_even_def)
  then show "round_f64 (4716158501352293 / 2 ^ 55 - 6288211335136391 / 2 ^ 57) = 3144105667568195 / 2 ^ 55" by simp
  have "round_f64 (3144105667568195 / 2 ^ 55 - 6288211335136391 / 2 ^ 57) = of_int 6288211335136389 / 2 ^ 57"
    by (rule round_f64_eval) (simp_all add: round_half_even_def)
  then show "round_f64 (3144105667568195 / 2 ^ 55 - 6288211335136391 / 2 ^ 57) = 6288211335136389 / 2 ^ 57" by simp
  have "round_f64 (6288211335136389 / 2 ^ 57 - 6288211335136391 / 2 ^ 57) = of_int (- 4503599627370496) / 2 ^ 108"
    by (rule round_f64_eval) (simp_all add: round_half_even_def)
  then show "round_f64 (6288211335136389 / 2 ^ 57 - 6288211335136391 / 2 ^ 57) = - 1 / 2 ^ 56" by simp
qed

lemma f64_up:
  assumes "rud_angle s = x" "rud_angle_max s = 6288211335136391 / 2 ^ 55"
    "rud_angle_inc s = 6288211335136391 / 2 ^ 57"
    "round_f64 (x + 6288211335136391 / 2 ^ 57) = v"
    "- (6288211335136391 / 2 ^ 55) \<le> v" "v \<le> 6288211335136391 / 2 ^ 55"
  shows "rud_unclipped round_f64 s 1 = v \<and> rud_angle (snd (control_rnd round_f64 s 1)) = v \<and>
         rud_angle_max (snd (control_rnd round_f64 s 1)) = 6288211335136391 / 2 ^ 55 \<and>
         rud_angle_inc (snd (control_rnd round_f64 s 1)) = 6288211335136391 / 2 ^ 57"
proof -
  have "rud_unclipped round_f64 s 1 = round_f64 (rud_angle s + rud_angle_inc s)"
    by (simp add: rud_unclipped_def)
  also have "\<dots> = v" unfolding assms(1) assms(3) by (rule assms(4))
  finally have u: "rud_unclipped round_f64 s 1 = v" .
  have a: "(1::int) = 1 \<or> (1::int) = 2" by simp
  have "rud_angle (snd (control_rnd round_f64 s 1)) = v"
    unfolding control_rnd_rud [OF a] u assms(2) by (rule np_clip_id [OF assms(5) assms(6)])
  then show ?thesis using u assms(2,3) by (simp add: control_rnd_max control_rnd_inc)
qed

lemma f64_down:
  assumes "rud_angle s = x" "rud_angle_max s = 6288211335136391 / 2 ^ 55"
    "rud_angle_inc s = 6288211335136391 / 2 ^ 57"
    "round_f64 (x - 6288211335136391 / 2 ^ 57) = v"
    "- (6288211335136391 / 2 ^ 55) \<le> v" "v \<le> 6288211335136391 / 2 ^ 55"
  shows "rud_unclipped round_f64 s 2 = v \<and> rud_angle (snd (control_rnd round_f64 s 2)) = v \<and>
         rud_angle_max (snd (control_rnd round_f64 s 2)) = 6288211335136391 / 2 ^ 55 \<and>
         rud_angle_inc (snd (control_rnd round_f64 s 2)) = 6288211335136391 / 2 ^ 57"
proof -
  have "rud_unclipped round_f64 s 2 = round_f64 (rud_angle s - rud_angle_inc s)"
    by (simp add: rud_unclipped_def)
  also have "\<dots> = v" unfolding assms(1) assms(3) by (rule assms(4))
  finally have u: "rud_unclipped round_f64 s 2 = v" .
  have a: "(2::int) = 1 \<or> (2::int) = 2" by simp
  have "rud_angle (snd (control_rnd round_f64 s 2)) = v"
    unfolding control_rnd_rud [OF a] u assms(2) by (rule np_clip_id [OF assms(5) assms(6)])
  then show ?thesis using u assms(2,3) by (simp add: control_rnd_max control_rnd_inc)
qed

lemma control_times_numerals:
  "control_times rnd 1 a os = snd (control_rnd rnd os a)"
  "control_times rnd 2 a os = snd (control_rnd rnd (snd (control_rnd rnd os a)) a)"
  "control_times rnd 3 a os =
     snd (control_rnd rnd (snd (control_rnd rnd (snd (control_rnd rnd os a)) a)) a)"
  by (simp_all add: control_times_def eval_nat_numeral)

text \<open>The six calls 1, 1, 1, 2, 2, 2 on the vessel \<open>os_f64\<close>, in doubles.\<close>

lemma f64_trace:
  "rud_unclipped round_f64 os_f64 1 = 6288211335136391 / 2 ^ 57"
  "rud_angle (control_times round_f64 1 1 os_f64) = 6288211335136391 / 2 ^ 57"
  "rud_unclipped round_f64 (control_times round_f64 1 1 os_f64) 1 = 6288211335136391 / 2 ^ 56"
  "rud_angle (control_times round_f64 2 1 os_f64) = 6288211335136391 / 2 ^ 56"
  "rud_unclipped round_f64 (control_times round_f64 2 1 os_f64) 1 = 4716158501352293 / 2 ^ 55"
  "rud_angle (control_times round_f64 3 1 os_f64) = 4716158501352293 / 2 ^ 55"
  "rud_unclipped round_f64 (control_times round_f64 3 1 os_f64) 2 = 3144105667568195 / 2 ^ 55"
  "rud_angle (control_times round_f64 1 2 (control_times round_f64 3 1 os_f64)) = 3144105667568195 / 2 ^ 55"
  "rud_unclipped round_f64 (control_times round_f64 1 2 (control_times round_f64 3 1 os_f64)) 2
     = 6288211335136389 / 2 ^ 57"
  "rud_angle (control_times round_f64 2 2 (control_times round_f64 3 1 os_f64)) = 6288211335136389 / 2 ^ 57"
  "rud_unclipped round_f64 (control_times round_f64 2 2 (control_times round_f64 3 1 os_f64)) 2
     = - 1 / 2 ^ 56"
  "rud_angle (control_times round_f64 3 2 (control_times round_f64 3 1 os_f64)) = - 1 / 2 ^ 56"
proof -
  let ?s1 = "snd (control_rnd round_f64 os_f64 1)"
  let ?s2 = "snd (control_rnd round_f64 ?s1 1)"
  let ?s3 = "snd (control_rnd round_f64 ?s2 1)"
  let ?t1 = "snd (control_rnd round_f64 ?s3 2)"
  let ?t2 = "snd (control_rnd round_f64 ?t1 2)"
  let ?t3 = "snd (control_rnd round_f64 ?t2 2)"
  note s1 = f64_up [OF os_f64_fields(1) os_f64_fields(2) os_f64_fields(3) f64_sums(1)]
  have s1': "rud_unclipped round_f64 os_f64 1 = 6288211335136391 / 2 ^ 57"
    "rud_angle ?s1 = 6288211335136391 / 2 ^ 57"
    "rud_angle_max ?s1 = 6288211335136391 / 2 ^ 55" "rud_angle_inc ?s1 = 6288211335136391 / 2 ^ 57"
    using s1 by simp_all
  note s2 = f64_up [OF s1'(2) s1'(3) s1'(4) f64_sums(2)]
  have s2': "rud_unclipped round_f64 ?s1 1 = 6288211335136391 / 2 ^ 56"
    "rud_angle ?s2 = 6288211335136391 / 2 ^ 56"
    "rud_angle_max ?s2 = 6288211335136391 / 2 ^ 55" "rud_angle_inc ?s2 = 6288211335136391 / 2 ^ 57"
    using s2 by simp_all
  note s3 = f64_up [OF s2'(2) s2'(3) s2'(4) f64_sums(3)]
  have s3': "rud_unclipped round_f64 ?s2 1 = 4716158501352293 / 2 ^ 55"
    "rud_angle ?s3 = 4716158501352293 / 2 ^ 55"
    "rud_angle_max ?s3 = 6288211335136391 / 2 ^ 55" "rud_angle_inc ?s3 = 6288211335136391 / 2 ^ 57"
    using s3 by simp_all
  note t1 = f64_down [OF s3'(2) s3'(3) s3'(4) f64_sums(4)]
  have t1': "rud_unclipped round_f64 ?s3 2 = 3144105667568195 / 2 ^ 55"
    "rud_angle ?t1 = 3144105667568195 / 2 ^ 55"
    "rud_angle_max ?t1 = 6288211335136391 / 2 ^ 55" "rud_angle_inc ?t1 = 6288211335136391 / 2 ^ 57"
    using t1 by simp_all
  note t2 = f64_down [OF t1'(2) t1'(3) t1'(4) f64_sums(5)]
  have t2': "rud_unclipped round_f64 ?t1 2 = 6288211335136389 / 2 ^ 57"
    "rud_angle ?t2 = 6288211335136389 / 2 ^ 57"
    "rud_angle_max ?t2 = 6288211335136391 / 2 ^ 55" "rud_angle_inc ?t2 = 6288211335136391 / 2 ^ 57"
    using t2 by simp_all
  note t3 = f64_down [OF t2'(2) t2'(3) t2'(4) f64_sums(6)]
  have t3': "rud_unclipped round_f64 ?t2 2 = - 1 / 2 ^ 56"
    "rud_angle ?t3 = - 1 / 2 ^ 56"
    using t3 by simp_all
  show "rud_unclipped round_f64 os_f64 1 = 6288211335136391 / 2 ^ 57"
    "rud_angle (control_times round_f64 1 1 os_f64) = 6288211335136391 / 2 ^ 57"
    "rud_unclipped round_f64 (control_times round_f64 1 1 os_f64) 1 = 6288211335136391 / 2 ^ 56"
    "rud_angle (control_times round_f64 2 1 os_f64) = 6288211335136391 / 2 ^ 56"
    "rud_unclipped round_f64 (control_times round_f64 2 1 os_f64) 1 = 4716158501352293 / 2 ^ 55"
    "rud_angle (control_times round_f64 3 1 os_f64) = 4716158501352293 / 2 ^ 55"
    "rud_unclipped round_f64 (control_times round_f64 3 1 os_f64) 2 = 3144105667568195 / 2 ^ 55"
    "rud_angle (control_times round_f64 1 2 (control_times round_f64 3 1 os_f64)) = 3144105667568195 / 2 ^ 55"
    "rud_unclipped round_f64 (control_times round_f64 1 2 (control_times round_f64 3 1 os_f64)) 2
       = 6288211335136389 / 2 ^ 57"
    "rud_angle (control_times round_f64 2 2 (control_times round_f64 3 1 os_f64)) = 6288211335136389 / 2 ^ 57"
    "rud_unclipped round_f64 (control_times round_f64 2 2 (control_times round_f64 3 1 os_f64)) 2
       = - 1 / 2 ^ 56"
    "rud_angle (control_times round_f64 3 2 (control_times round_f64 3 1 os_f64)) = - 1 / 2 ^ 56"
    unfolding control_times_numerals
    by (fact s1' s2' s3' t1' t2' t3')+
qed

theorem up_then_down_rounding_witness:
  "(0::real) \<le> 1 / 2 ^ 53 \<and>
   (\<forall>y. \<bar>round_f64 y - y\<bar> \<le> 1 / 2 ^ 53 * \<bar>round_f64 y\<bar>) \<and>
   \<bar>rud_unclipped round_f64 (control_times round_f64 0 1 os_f64) 1\<bar> \<le> rud_angle_max os_f64 \<and>
   \<bar>rud_unclipped round_f64 (control_times round_f64 1 1 os_f64) 1\<bar> \<le> rud_angle_max os_f64 \<and>
   \<bar>rud_unclipped round_f64 (control_times round_f64 2 1 os_f64) 1\<bar> \<le> rud_angle_max os_f64 \<and>
   \<bar>rud_unclipped round_f64 (control_times round_f64 0 2 (control_times round_f64 3 1 os_f64)) 2\<bar>
      \<le> rud_angle_max os_f64 \<and>
   \<bar>rud_unclipped round_f64 (control_times round_f64 1 2 (control_times round_f64 3 1 os_f64)) 2\<bar>
      \<le> rud_angle_max os_f64 \<and>
   \<bar>rud_unclipped round_f64 (control_times round_f64 2 2 (control_times round_f64 3 1 os_f64)) 2\<bar>
      \<le> rud_angle_max os_f64 \<and>
   \<bar>rud_angle (control_times round_f64 3 1 os_f64) - (rud_angle os_f64 + real 3 * rud_angle_inc os_f64)\<bar>
      \<le> real 3 * (1 / 2 ^ 53) * rud_angle_max os_f64 \<and>
   \<bar>rud_angle (control_times round_f64 3 2 (control_times round_f64 3 1 os_f64)) - rud_angle os_f64\<bar>
      \<le> 2 * real 3 * (1 / 2 ^ 53) * rud_angle_max os_f64"
proof -
  have e0: "(0::real) \<le> 1 / 2 ^ 53" by simp
  have err: "\<forall>y. \<bar>round_f64 y - y\<bar> \<le> 1 / 2 ^ 53 * \<bar>round_f64 y\<bar>"
    using round_f64_relative_error by simp
  have u0: "\<bar>rud_unclipped round_f64 (control_times round_f64 0 1 os_f64) 1\<bar> \<le> rud_angle_max os_f64"
    unfolding control_times_0 f64_trace(1) os_f64_fields by simp
  have u1: "\<bar>rud_unclipped round_f64 (control_times round_f64 1 1 os_f64) 1\<bar> \<le> rud_angle_max os_f64"
    unfolding f64_trace(3) os_f64_fields by simp
  have u2: "\<bar>rud_unclipped round_f64 (control_times round_f64 2 1 os_f64) 1\<bar> \<le> rud_angle_max os_f64"
    unfolding f64_trace(5) os_f64_fields by simp
  have d0: "\<bar>rud_unclipped round_f64 (control_times round_f64 0 2 (control_times round_f64 3 1 os_f64)) 2\<bar>
      \<le> rud_angle_max os_f64"
    unfolding control_times_0 f64_trace(7) os_f64_fields by simp
  have d1: "\<bar>rud_unclipped round_f64 (control_times round_f64 1 2 (control_times round_f64 3 1 os_f64)) 2\<bar>
      \<le> rud_angle_max os_f64"
    unfolding f64_trace(9) os_f64_fields by simp
  have d2: "\<bar>rud_unclipped round_f64 (control_times round_f64 2 2 (control_times round_f64 3 1 os_f64)) 2\<bar>
      \<le> rud_angle_max os_f64"
    unfolding f64_trace(11) os_f64_fields by simp
  have l3: "j < 3 \<longleftrightarrow> j = 0 \<or> j = 1 \<or> j = 2" for j :: nat by auto
  have up: "\<forall>j<3. \<bar>rud_unclipped round_f64 (control_times round_f64 j 1 os_f64) 1\<bar> \<le> rud_angle_max os_f64"
    using u0 u1 u2 by (auto simp add: l3)
  have down: "\<forall>j<3. \<bar>rud_unclipped round_f64 (control_times round_f64 j 2 (control_times round_f64 3 1 os_f64)) 2\<bar>
      \<le> rud_angle_max os_f64"
    using d0 d1 d2 by (auto simp add: l3)
  note t = up_then_down_rounding [OF e0 err up down]
  show ?thesis
    by (intro conjI) (fact e0 err u0 u1 u2 d0 d1 d2 t [THEN conjunct1] t [THEN conjunct2])+
qed

text \<open>
  Claim C9 says that the rudder angle returns to its original value. On the vessel
  constructed with \<open>delta_t = 1.0\<close>, in doubles, three calls with action 1 and three calls
  with action 2 keep every value strictly inside the clip bounds and end at
  \<open>-2\<^sup>-\<^sup>5\<^sup>6\<close>, not at the original angle 0: the third addition and the first
  subtraction are rounded.
\<close>

theorem up_then_down_f64_counterexample:
  "rud_angle os_f64 = 0 \<and>
   \<bar>rud_angle (control_times round_f64 1 1 os_f64)\<bar> < rud_angle_max os_f64 \<and>
   \<bar>rud_angle (control_times round_f64 2 1 os_f64)\<bar> < rud_angle_max os_f64 \<and>
   \<bar>rud_angle (control_times round_f64 3 1 os_f64)\<bar> < rud_angle_max os_f64 \<and>
   \<bar>rud_angle (control_times round_f64 1 2 (control_times round_f64 3 1 os_f64))\<bar> < rud_angle_max os_f64 \<and>
   \<bar>rud_angle (control_times round_f64 2 2 (control_times round_f64 3 1 os_f64))\<bar> < rud_angle_max os_f64 \<and>
   \<bar>rud_angle (control_times round_f64 3 2 (control_times round_f64 3 1 os_f64))\<bar> < rud_angle_max os_f64 \<and>
   rud_angle (control_times round_f64 3 2 (control_times round_f64 3 1 os_f64)) = - 1 / 2 ^ 56 \<and>
   rud_angle (control_times round_f64 3 2 (control_times round_f64 3 1 os_f64)) \<noteq> rud_angle os_f64"
  unfolding f64_trace(2,4,6,8,10,12) os_f64_fields by simp

subsection \<open>The MMG right-hand side at zero speed\<close>

lemma keys_C: "list_all (\<lambda>key. key \<in> set kvlcc2_full_keys) [''C_1'', ''C_2_plus'', ''C_2_minus'']"
  by (simp add: kvlcc2_full_keys_def)

lemma keys_k: "list_all (\<lambda>key. key \<in> set kvlcc2_full_keys) [''k_0'', ''k_1'', ''k_2'']"
  by (simp add: kvlcc2_full_keys_def)

lemma bnd_Inr [simp]: "bnd (Inr v) f = f v"
  by (simp add: bnd_def)

lemma bnd_Inl [simp]: "bnd (Inl e) f = Inl e"
  by (simp add: bnd_def)

lemma py_div_ok: "b \<noteq> 0 \<Longrightarrow> py_div a b = Inr (a / b)"
  by (simp add: py_div_def)

lemma py_sqrt_ok: "0 \<le> a \<Longrightarrow> py_sqrt a = Inr (sqrt a)"
  by (simp add: py_sqrt_def)

lemma mmg_drift_zero:
  assumes "u ^ 2 + (vm_from_v_r os v r) ^ 2 = 0"
  shows "mmg_drift os u v r = Inr (vm_from_v_r os v r, 0, 0, 0, 0)"
  using assms by (simp add: mmg_drift_def Let_def py_sqrt_def)

lemma zero_speed_components:
  assumes "u ^ 2 + (vm_from_v_r os v r) ^ 2 = 0"
  shows "u = 0" "vm_from_v_r os v r = 0"
  using assms by (simp_all add: sum_power2_eq_zero_iff)

lemma mmg_propeller_zero:
  assumes "prm os = kvlcc2_full"
  shows "mmg_propeller os 0 0 0 = Inr (- 0.26, 0, k_0 (prm os))"
proof -
  have q: "py_div (x_P (prm os)) (Lpp (prm os)) = Inr (- (1 / 2))"
    by (simp add: assms kvlcc2_full_def py_div_def)
  have j: "(if nps os = 0 then Inr 0 else py_div ((1 - w) * 0) (nps os * D_p (prm os))) = Inr 0" for w
    by (simp add: assms kvlcc2_full_def py_div_def)
  show ?thesis
    unfolding mmg_propeller_def q bnd_Inr keys_C [THEN eqTrueI] keys_k [THEN eqTrueI] if_True
    by (simp add: j Let_def) (simp add: assms kvlcc2_full_def)
qed

lemma atan2_zero: "0 \<le> x \<Longrightarrow> atan2 0 x = 0"
  by (simp add: atan2_def)

lemma mmg_rudder_zero:
  assumes "prm os = kvlcc2_full"
  shows "\<exists>fn. mmg_rudder os 0 0 0 0 w 0 K = Inr fn \<and> (rud_angle os = 0 \<longrightarrow> fn = 0)"
proof -
  define a where "a = eta_param (prm os) *
               (kappa (prm os) * epsilon (prm os) * 8.0 * k_0 (prm os) * nps os ^ 2
                  * D_p (prm os) ^ 4 / pi) ^ 2"
  have "0 \<le> eta_param (prm os)" by (simp add: assms kvlcc2_full_def)
  then have a0: "0 \<le> a" unfolding a_def by (intro mult_nonneg_nonneg) simp_all
  have s1: "py_sqrt a = Inr (sqrt a)" using a0 by (rule py_sqrt_ok)
  have s2: "py_sqrt ((sqrt a) ^ 2 + 0 ^ 2) = Inr (sqrt a)" using a0 by (simp add: py_sqrt_def)
  have ar: "A_R (prm os) = Some 112.5" by (simp add: assms kvlcc2_full_def)
  have at: "atan2 0 (sqrt a) = 0" using a0 by (intro atan2_zero) simp
  have e: "mmg_rudder os 0 0 0 0 w 0 K =
      Inr (0.5 * 112.5 * rho (prm os) * f_alpha (prm os) * ((sqrt a) ^ 2) * sin (rud_angle os))"
    unfolding mmg_rudder_def Let_def
    apply (simp only: mult_zero_left mult_zero_right if_True a_def [symmetric] s1 bnd_Inr)
    apply (simp only: s2 bnd_Inr ar option.case at diff_zero simp_thms if_True)
    done
  show ?thesis
  proof (intro exI conjI impI)
    show "mmg_rudder os 0 0 0 0 w 0 K =
      Inr (0.5 * 112.5 * rho (prm os) * f_alpha (prm os) * ((sqrt a) ^ 2) * sin (rud_angle os))"
      by (rule e)
  next
    assume "rud_angle os = 0"
    then show "0.5 * 112.5 * rho (prm os) * f_alpha (prm os) * ((sqrt a) ^ 2) * sin (rud_angle os) = 0"
      by simp
  qed
qed

lemma current_forces_none:
  assumes "fl_vel = None \<or> fl_vel = Some 0"
  shows "current_forces os psi u vm fl_psi fl_vel = Inr (0, 0, 0)"
  using assms by (auto simp add: current_forces_def)

lemma mmg_forces_zero_speed:
  assumes p: "prm os = kvlcc2_full"
    and z: "u ^ 2 + (vm_from_v_r os v r) ^ 2 = 0"
    and c: "fl_vel = None \<or> fl_vel = Some 0"
  shows "\<exists>fn. mmg_rudder os 0 0 0 0 (- 0.26) 0 (k_0 (prm os)) = Inr fn \<and>
          mmg_forces os (N0, E0, psi, u, v, r) fl_psi fl_vel =
            Inr \<lparr> F_N = fn, X_H = 0,
                  X_R = - (1 - t_R (prm os)) * fn * sin (rud_angle os),
                  X_P = (1 - t_P (prm os)) * rho (prm os) * k_0 (prm os) * nps os ^ 2 * D_p (prm os) ^ 4,
                  Y_H = 0,
                  Y_R = - (1 + a_H (prm os)) * fn * cos (rud_angle os),
                  N_H = 0,
                  N_R = - ((- 1 / 2) + a_H (prm os) * (x_H_dash (prm os) * Lpp (prm os))) * fn * cos (rud_angle os),
                  X_C = 0, Y_C = 0, N_C = 0 \<rparr>"
proof -
  obtain fn where f: "mmg_rudder os 0 0 0 0 (- 0.26) 0 (k_0 (prm os)) = Inr fn"
    using mmg_rudder_zero [OF p] by blast
  have u0: "u = 0" and vm0: "vm_from_v_r os v r = 0"
    using zero_speed_components [OF z] by simp_all
  have d: "mmg_drift os 0 v r = Inr (0, 0, 0, 0, 0)"
    using mmg_drift_zero [OF z] by (simp add: u0 vm0)
  have cf: "current_forces os psi 0 0 fl_psi fl_vel = Inr (0, 0, 0)"
    by (rule current_forces_none [OF c])
  have "mmg_forces os (N0, E0, psi, u, v, r) fl_psi fl_vel = Inr \<lparr> F_N = fn, X_H = 0,
                  X_R = - (1 - t_R (prm os)) * fn * sin (rud_angle os),
                  X_P = (1 - t_P (prm os)) * rho (prm os) * k_0 (prm os) * nps os ^ 2 * D_p (prm os) ^ 4,
                  Y_H = 0,
                  Y_R = - (1 + a_H (prm os)) * fn * cos (rud_angle os),
                  N_H = 0,
                  N_R = - ((- 1 / 2) + a_H (prm os) * (x_H_dash (prm os) * Lpp (prm os))) * fn * cos (rud_angle os),
                  X_C = 0, Y_C = 0, N_C = 0 \<rparr>"
    unfolding mmg_forces_def u0
    using f by (simp add: d mmg_propeller_zero [OF p] cf Let_def)
  with f show ?thesis by blast
qed

lemma vm_rest: "vm_from_v_r os 0 0 = 0"
  by (simp add: vm_from_v_r_def)



text \<open>
  Claim C8. At \<open>u = v = r = 0\<close> with rudder angle 0 and no current, the hull terms
  \<open>X_H\<close>, \<open>Y_H\<close>, \<open>N_H\<close>, the rudder terms \<open>F_N\<close>, \<open>X_R\<close>, \<open>Y_R\<close>, \<open>N_R\<close> and the current
  terms \<open>X_C\<close>, \<open>Y_C\<close>, \<open>N_C\<close> are all zero; the advance ratio is 0, the thrust
  coefficient is \<open>k_0\<close>, and the surge acceleration is the propeller thrust
  \<open>(1 - t_P) rho K_T nps\<^sup>2 D_p\<^sup>4\<close> divided by \<open>m + m_x\<close>. The lateral and the yaw
  acceleration and the pose rate are zero. The result is a value (no division by zero
  and no square root of a negative number on the way).
\<close>

theorem at_rest:
  assumes p: "prm os = kvlcc2_full"
    and rud: "rud_angle os = 0"
    and c: "fl_vel = None \<or> fl_vel = Some 0"
  shows "\<exists>F. mmg_forces os (N0, E0, psi, 0, 0, 0) fl_psi fl_vel = Inr F \<and>
           X_H F = 0 \<and> Y_H F = 0 \<and> N_H F = 0 \<and>
           F_N F = 0 \<and> X_R F = 0 \<and> Y_R F = 0 \<and> N_R F = 0 \<and>
           X_C F = 0 \<and> Y_C F = 0 \<and> N_C F = 0 \<and>
           mmg_propeller os 0 0 0 = Inr (- 0.26, 0, k_0 (prm os)) \<and>
           X_P F = (1 - t_P (prm os)) * rho (prm os) * k_0 (prm os) * nps os ^ 2 * D_p (prm os) ^ 4 \<and>
           mmg_dynamics os t (N0, E0, psi, 0, 0, 0) fl_psi fl_vel =
             Inr (0, 0, 0,
                  X_P F / (ship_m (prm os) +
                    m_x_dash (prm os) * (0.5 * rho (prm os) * (Lpp (prm os) ^ 2) * ship_d (prm os))),
                  0, 0)"
proof -
  have z: "(0::real) ^ 2 + (vm_from_v_r os 0 0) ^ 2 = 0" by (simp add: vm_rest)
  obtain fn where f: "mmg_rudder os 0 0 0 0 (- 0.26) 0 (k_0 (prm os)) = Inr fn"
    and fz: "fn = 0"
    using mmg_rudder_zero [OF p, of "- 0.26" "k_0 (prm os)"] rud by blast
  obtain fn' where f': "mmg_rudder os 0 0 0 0 (- 0.26) 0 (k_0 (prm os)) = Inr fn'"
    and F: "mmg_forces os (N0, E0, psi, 0, 0, 0) fl_psi fl_vel =
            Inr \<lparr> F_N = fn', X_H = 0,
                  X_R = - (1 - t_R (prm os)) * fn' * sin (rud_angle os),
                  X_P = (1 - t_P (prm os)) * rho (prm os) * k_0 (prm os) * nps os ^ 2 * D_p (prm os) ^ 4,
                  Y_H = 0,
                  Y_R = - (1 + a_H (prm os)) * fn' * cos (rud_angle os),
                  N_H = 0,
                  N_R = - ((- 1 / 2) + a_H (prm os) * (x_H_dash (prm os) * Lpp (prm os))) * fn' * cos (rud_angle os),
                  X_C = 0, Y_C = 0, N_C = 0 \<rparr>"
    using mmg_forces_zero_speed [OF p z c, of N0 E0 psi fl_psi] by blast
  have e: "fn' = 0" using f f' fz by simp
  let ?F = "\<lparr> F_N = 0, X_H = 0, X_R = 0,
                  X_P = (1 - t_P (prm os)) * rho (prm os) * k_0 (prm os) * nps os ^ 2 * D_p (prm os) ^ 4,
                  Y_H = 0, Y_R = 0, N_H = 0, N_R = 0, X_C = 0, Y_C = 0, N_C = 0 \<rparr>"
  have F0: "mmg_forces os (N0, E0, psi, 0, 0, 0) fl_psi fl_vel = Inr ?F"
    using F by (simp add: e)
  have D: "mmg_dynamics os t (N0, E0, psi, 0, 0, 0) fl_psi fl_vel =
             Inr (0, 0, 0,
                  X_P ?F / (ship_m (prm os) +
                    m_x_dash (prm os) * (0.5 * rho (prm os) * (Lpp (prm os) ^ 2) * ship_d (prm os))),
                  0, 0)"
    unfolding mmg_dynamics_def
    by (simp add: F0 Let_def py_div_def p kvlcc2_full_def np_dot_def T_of_psi_def power_divide)
  show ?thesis
    by (rule exI [of _ ?F]) (simp add: F0 D mmg_propeller_zero [OF p])
qed

theorem at_rest_witness:
  "prm (KVLCC2_init dtr_std 0 0 0 0 0 0 3 1 1) = kvlcc2_full \<and>
   rud_angle (KVLCC2_init dtr_std 0 0 0 0 0 0 3 1 1) = 0 \<and>
   mmg_dynamics (KVLCC2_init dtr_std 0 0 0 0 0 0 3 1 1) 0 (0, 0, 0, 0, 0, 0) 0 (Some 0) =
     Inr (0, 0, 0, (1 - 0.220) * 1000 * 0.2931 * 4 ^ 2 * 9.86 ^ 4 / 336029120, 0, 0)"
proof -
  let ?os = "KVLCC2_init dtr_std 0 0 0 0 0 0 3 1 1"
  have p: "prm ?os = kvlcc2_full" by (simp add: KVLCC2_init_def)
  have r: "rud_angle ?os = 0" by (simp add: KVLCC2_init_def)
  have n: "nps ?os = 4" by (simp add: KVLCC2_init_def)
  have c: "Some (0::real) = None \<or> Some (0::real) = Some 0" by simp
  obtain F :: forces where x: "X_P F = (1 - t_P (prm ?os)) * rho (prm ?os) * k_0 (prm ?os) * nps ?os ^ 2 * D_p (prm ?os) ^ 4"
    and d: "mmg_dynamics ?os 0 (0, 0, 0, 0, 0, 0) 0 (Some 0) =
             Inr (0, 0, 0,
                  X_P F / (ship_m (prm ?os) +
                    m_x_dash (prm ?os) * (0.5 * rho (prm ?os) * (Lpp (prm ?os) ^ 2) * ship_d (prm ?os))),
                  0, 0)"
    using at_rest [OF p r c, of 0 0 0 0 0] by blast
  have "X_P F / (ship_m (prm ?os) +
                    m_x_dash (prm ?os) * (0.5 * rho (prm ?os) * (Lpp (prm ?os) ^ 2) * ship_d (prm ?os)))
        = (1 - 0.220) * 1000 * 0.2931 * 4 ^ 2 * 9.86 ^ 4 / 336029120"
    unfolding x p n by (simp add: kvlcc2_full_def)
  with d p r show ?thesis by simp
qed

lemma current_forces_zero: "current_forces os psi u vm 0 (Some 0) = Inr (0, 0, 0)"
  by (simp add: current_forces_def)

lemma current_forces_raises:
  "fv \<noteq> 0 \<Longrightarrow> current_forces os psi u vm fl_psi (Some fv)
     = Inl (TypeError ''_C_X() got the wrong number of positional arguments'')"
  by (simp add: current_forces_def Let_def self_C_X_def call_positional_def)



subsection \<open>LiDAR and observation\<close>

lemma beam_dots_clear:
  assumes "\<forall>d \<in> set ds. sense_depth env < dot_depth c env N0 E0 ang d"
  shows "fst (beam_dots c env N0 E0 ang ds) = None"
  using assms by (induction ds) (auto split: prod.splits)

lemma sense_beams_clear:
  assumes "\<forall>p \<in> set beams. \<forall>d \<in> set (d_dots_per_beam env).
             sense_depth env < dot_depth c env N0 E0 (angle_to_2pi c (snd p + head0)) d"
  shows "\<exists>pts. sense_beams c env N0 E0 head0 beams (od, ol) = Inr (od, pts)"
  using assms
proof (induction beams arbitrary: ol)
  case Nil
  then show ?case by simp
next
  case (Cons p beams)
  obtain i a where p: "p = (i, a)" by (cases p)
  have "fst (beam_dots c env N0 E0 (angle_to_2pi c (a + head0)) (d_dots_per_beam env)) = None"
    using Cons.prems p by (intro beam_dots_clear) simp
  then obtain pts where b: "beam_dots c env N0 E0 (angle_to_2pi c (a + head0)) (d_dots_per_beam env) = (None, pts)"
    by (cases "beam_dots c env N0 E0 (angle_to_2pi c (a + head0)) (d_dots_per_beam env)") simp
  have "\<exists>pts'. sense_beams c env N0 E0 head0 beams (od, ol @ pts) = Inr (od, pts')"
    using Cons.prems by (intro Cons.IH) simp
  then show ?case by (simp add: p b)
qed

lemma sense_beams_length:
  "sense_beams c env N0 E0 head0 beams (od, ol) = Inr (ds, ps) \<Longrightarrow> length ds = length od"
proof (induction beams arbitrary: od ol)
  case Nil
  then show ?case by simp
next
  case (Cons p beams)
  obtain i a where p: "p = (i, a)" by (cases p)
  obtain h pts where b: "beam_dots c env N0 E0 (angle_to_2pi c (a + head0)) (d_dots_per_beam env) = (h, pts)"
    by (cases "beam_dots c env N0 E0 (angle_to_2pi c (a + head0)) (d_dots_per_beam env)")
  show ?case
  proof (cases h)
    case None
    with Cons.prems p b have "sense_beams c env N0 E0 head0 beams (od, ol @ pts) = Inr (ds, ps)" by simp
    then show ?thesis by (rule Cons.IH)
  next
    case (Some d)
    with Cons.prems p b have "sense_beams c env N0 E0 head0 beams (od[i := d], ol @ pts) = Inr (ds, ps)"
      by (simp split: if_splits)
    then have "length ds = length (od[i := d])" by (rule Cons.IH)
    then show ?thesis by simp
  qed
qed

lemma sense_LiDAR_length:
  "sense_LiDAR c env = Inr (ds, ps) \<Longrightarrow> length ds = lidar_n_beams env"
  unfolding sense_LiDAR_def
  by (auto split: prod.splits dest: sense_beams_length)

lemma bnd_Inr_iff: "bnd x f = Inr y \<longleftrightarrow> (\<exists>v. x = Inr v \<and> f v = Inr y)"
  by (cases x) (simp_all add: bnd_def)

lemma get_closeness_entries:
  "get_closeness_from_lidar env ds = Inr cl \<Longrightarrow>
     length cl = length ds \<and> (\<forall>i < length ds. closeness_of env (ds ! i) = Inr (cl ! i))"
proof (induction ds arbitrary: cl)
  case Nil
  then show ?case by simp
next
  case (Cons d ds)
  from Cons.prems obtain x xs where x: "closeness_of env d = Inr x"
    and xs: "get_closeness_from_lidar env ds = Inr xs" and cl: "cl = x # xs"
    by (auto simp add: bnd_Inr_iff)
  from Cons.IH [OF xs] have ih: "length xs = length ds"
    "\<forall>i < length ds. closeness_of env (ds ! i) = Inr (xs ! i)" by simp_all
  show ?case
  proof (intro conjI allI impI)
    show "length cl = length (d # ds)" using ih cl by simp
  next
    fix i assume "i < length (d # ds)"
    then show "closeness_of env ((d # ds) ! i) = Inr (cl ! i)"
      using ih x cl by (cases i) simp_all
  qed
qed

lemma closeness_formula:
  assumes "0 < lidar_range env" "- 1 < d"
  shows "closeness_of env d = Inr (min 1 (max (1 - ln (d + 1) / ln (lidar_range env + 1)) 0))"
proof -
  have "ln (lidar_range env + 1) \<noteq> 0" using assms(1) by simp
  then show ?thesis using assms
    by (simp add: closeness_of_def np_log_def py_div_def np_clip_def bnd_def)
qed

lemma closeness_at_range:
  assumes "0 < lidar_range env"
  shows "closeness_of env (lidar_range env) = Inr 0"
proof -
  have "ln (lidar_range env + 1) \<noteq> 0" using assms by simp
  then show ?thesis using assms
    by (simp add: closeness_of_def np_log_def py_div_def np_clip_def bnd_def)
qed

lemma get_closeness_replicate:
  assumes "0 < lidar_range env"
  shows "get_closeness_from_lidar env (replicate n (lidar_range env)) = Inr (replicate n 0)"
  by (induction n) (simp_all add: closeness_at_range [OF assms] bnd_def)

text \<open>
  Claim C5. If the depth at every sub-point of every beam is above \<open>sense_depth\<close>, then
  \<open>_sense_LiDAR\<close> returns the maximum range \<open>lidar_range\<close> for each of the
  \<open>lidar_n_beams\<close> beams, and \<open>_get_closeness_from_lidar\<close> maps these distances to 0.
  For every distance \<open>d > -1\<close> the closeness is
  \<open>clip(1 - ln(d + 1) / ln(range + 1), 0, 1)\<close>. The range has to be positive: for a range
  of 0 the formula divides by \<open>ln 1 = 0\<close>.
\<close>

theorem lidar_clear_water:
  assumes r: "0 < lidar_range env"
    and e: "eta (OS env) = (N0, E0, head0)"
    and clear: "\<forall>a \<in> set (lidar_beam_angles env). \<forall>d \<in> set (d_dots_per_beam env).
                  sense_depth env < dot_depth c env N0 E0 (angle_to_2pi c (a + head0)) d"
  shows "(\<exists>pts. sense_LiDAR c env = Inr (replicate (lidar_n_beams env) (lidar_range env), pts)) \<and>
         get_closeness_from_lidar env (replicate (lidar_n_beams env) (lidar_range env))
           = Inr (replicate (lidar_n_beams env) 0) \<and>
         (\<forall>d > - 1. closeness_of env d
           = Inr (min 1 (max (1 - ln (d + 1) / ln (lidar_range env + 1)) 0)))"
proof (intro conjI allI impI)
  have "\<forall>p \<in> set (enumerate 0 (lidar_beam_angles env)). \<forall>d \<in> set (d_dots_per_beam env).
             sense_depth env < dot_depth c env N0 E0 (angle_to_2pi c (snd p + head0)) d"
    using clear by (auto simp add: in_set_enumerate_eq)
  from sense_beams_clear [OF this]
  show "\<exists>pts. sense_LiDAR c env = Inr (replicate (lidar_n_beams env) (lidar_range env), pts)"
    by (simp add: sense_LiDAR_def e)
next
  show "get_closeness_from_lidar env (replicate (lidar_n_beams env) (lidar_range env))
           = Inr (replicate (lidar_n_beams env) 0)"
    by (rule get_closeness_replicate [OF r])
next
  fix d :: real assume "- 1 < d"
  then show "closeness_of env d = Inr (min 1 (max (1 - ln (d + 1) / ln (lidar_range env + 1)) 0))"
    by (rule closeness_formula [OF r])
qed

lemma dot_depth_ex: "dot_depth collab_ex env_ex N0 E0 ang d = 40"
  by (simp add: dot_depth_def dot_latlon_def depth_at_latlon_def collab_ex_def env_ex_def
      split: prod.splits)

lemma env_ex_fields:
  "lidar_range env_ex = 100" "lidar_n_beams env_ex = 2" "lidar_beam_angles env_ex = [0, pi]"
  "d_dots_per_beam env_ex = [50, 100]" "sense_depth env_ex = 15"
  "eta (OS env_ex) = (10, 0, 0)" "nu (OS env_ex) = (5, 0, 0)" "nu_dot (OS env_ex) = (0, 0, 0)"
  "wp1_N env_ex = 0" "wp1_E env_ex = 0" "wp2_N env_ex = 10" "wp2_E env_ex = 0"
  "wp1_idx env_ex = 0" "wp2_idx env_ex = 1" "VFG_K env_ex = 0.001"
  "prm (OS env_ex) = kvlcc2_full" "rud_angle (OS env_ex) = 0" "rud_angle_max (OS env_ex) = pi / 18"
  "n_wps (DesiredPath env_ex) = 3" "north (DesiredPath env_ex) = [0, 10, 20]"
  "east (DesiredPath env_ex) = [0, 0, 0]"
  by (simp_all add: env_ex_def KVLCC2_init_def dtr_std_def)

theorem lidar_clear_water_witness:
  "0 < lidar_range env_ex \<and>
   eta (OS env_ex) = (10, 0, 0) \<and>
   sense_depth env_ex < dot_depth collab_ex env_ex 10 0 (angle_to_2pi collab_ex (0 + 0)) 50 \<and>
   sense_depth env_ex < dot_depth collab_ex env_ex 10 0 (angle_to_2pi collab_ex (pi + 0)) 100 \<and>
   (\<exists>pts. sense_LiDAR collab_ex env_ex = Inr ([100, 100], pts)) \<and>
   get_closeness_from_lidar env_ex [100, 100] = Inr [0, 0] \<and>
   - 1 < (50::real) \<and>
   closeness_of env_ex 50 = Inr (min 1 (max (1 - ln 51 / ln 101) 0))"
proof -
  have r: "0 < lidar_range env_ex" by (simp add: env_ex_fields)
  have e: "eta (OS env_ex) = (10, 0, 0)" by (simp add: env_ex_fields)
  have clear: "\<forall>a \<in> set (lidar_beam_angles env_ex). \<forall>d \<in> set (d_dots_per_beam env_ex).
                  sense_depth env_ex < dot_depth collab_ex env_ex 10 0 (angle_to_2pi collab_ex (a + 0)) d"
    by (simp add: dot_depth_ex env_ex_fields)
  have n: "replicate (lidar_n_beams env_ex) (lidar_range env_ex) = [100, 100]"
    "replicate (lidar_n_beams env_ex) (0::real) = [0, 0]"
    by (simp_all add: env_ex_fields numeral_2_eq_2)
  note t = lidar_clear_water [OF r e clear, unfolded n]
  have a: "\<exists>pts. sense_LiDAR collab_ex env_ex = Inr ([100, 100], pts)"
    by (rule conjunct1 [OF t])
  have b: "get_closeness_from_lidar env_ex [100, 100] = Inr [0, 0]"
    by (rule conjunct1 [OF conjunct2 [OF t]])
  have m: "- 1 < (50::real)" by simp
  have c: "closeness_of env_ex 50 = Inr (min 1 (max (1 - ln (50 + 1) / ln (lidar_range env_ex + 1)) 0))"
    by (rule conjunct2 [OF conjunct2 [OF t], rule_format, OF m])
  have c': "closeness_of env_ex 50 = Inr (min 1 (max (1 - ln 51 / ln 101) 0))"
    using c by (simp add: env_ex_fields)
  show ?thesis
    using a b c' by (simp add: dot_depth_ex env_ex_fields)
qed

text \<open>
  Claim C2. Whenever \<open>_set_state\<close> computes a state, the state is the list
  \<open>[u/7.0, v/0.7, r/0.004, r_dot/8e-5, rud_angle/rud_angle_max, ye/Lpp, desired_course/pi]\<close>
  followed by the closeness of each of the \<open>lidar_n_beams\<close> distances of the LiDAR, in the
  order of the beams, and nothing else of the environment changes. Here \<open>(u, v, r)\<close> is
  \<open>nu\<close>, \<open>r_dot\<close> the last entry of \<open>nu_dot\<close>, and \<open>ye\<close> and \<open>desired_course\<close> are
  the first two results of \<open>VFG\<close> at the vessel's position.
\<close>

theorem observation_layout:
  assumes s: "set_state c env = (Inr (), env')"
    and p: "eta (OS env) = (N0, E0, psi)"
    and v: "nu (OS env) = (u, v, r)"
    and a: "nu_dot (OS env) = (u_dot, v_dot, r_dot)"
    and g: "VFG c (wp1_N env) (wp1_E env) (wp2_N env) (wp2_E env) N0 E0 (VFG_K env)
              = (ye, desired_course, pi_path)"
  shows "\<exists>dists pts cl.
           sense_LiDAR c env = Inr (dists, pts) \<and> length dists = lidar_n_beams env \<and>
           get_closeness_from_lidar env dists = Inr cl \<and> length cl = lidar_n_beams env \<and>
           (\<forall>i < lidar_n_beams env. closeness_of env (dists ! i) = Inr (cl ! i)) \<and>
           env' = env\<lparr>state :=
             [u / 7.0, v / 0.7, r / 0.004, r_dot / 0.00008,
              rud_angle (OS env) / rud_angle_max (OS env),
              ye / Lpp (prm (OS env)), desired_course / pi] @ cl\<rparr>"
proof -
  from s obtain st where st: "bnd (py_div (rud_angle (OS env)) (rud_angle_max (OS env))) (\<lambda>rud.
             let cmp1 = [u / 7.0, v / 0.7, r / 0.004];
                 cmp2 = [r_dot / (8 / 10 ^ 5), rud];
                 state_OS = cmp1 @ cmp2
             in
             case VFG c (wp1_N env) (wp1_E env) (wp2_N env) (wp2_E env) N0 E0 (VFG_K env) of
               (ye, desired_course, _) \<Rightarrow>
             bnd (py_div ye (Lpp (prm (OS env)))) (\<lambda>ye_L.
               let state_path = [ye_L, desired_course / pi] in
               bnd (sense_LiDAR c env) (\<lambda>(dists, _).
               bnd (get_closeness_from_lidar env dists) (\<lambda>state_LiDAR.
                 Inr (state_OS @ state_path @ state_LiDAR))))) = Inr st"
    and e': "env' = env\<lparr>state := st\<rparr>"
    unfolding set_state_def p v a by (auto split: sum.splits)
  from st obtain rud where rud: "py_div (rud_angle (OS env)) (rud_angle_max (OS env)) = Inr rud"
    and st2: "bnd (py_div ye (Lpp (prm (OS env)))) (\<lambda>ye_L.
               bnd (sense_LiDAR c env) (\<lambda>(dists, _).
               bnd (get_closeness_from_lidar env dists) (\<lambda>state_LiDAR.
                 Inr ([u / 7.0, v / 0.7, r / 0.004, r_dot / (8 / 10 ^ 5), rud] @ [ye_L, desired_course / pi] @ state_LiDAR)))) = Inr st"
    unfolding bnd_Inr_iff [of "py_div (rud_angle (OS env)) (rud_angle_max (OS env))"]
    by (auto simp add: Let_def g)
  from st2 obtain ye_L dists pts cl where yl: "py_div ye (Lpp (prm (OS env))) = Inr ye_L"
    and sl: "sense_LiDAR c env = Inr (dists, pts)"
    and gc: "get_closeness_from_lidar env dists = Inr cl"
    and stv: "st = [u / 7.0, v / 0.7, r / 0.004, r_dot / (8 / 10 ^ 5), rud] @ [ye_L, desired_course / pi] @ cl"
    by (auto simp add: bnd_Inr_iff)
  have rv: "rud = rud_angle (OS env) / rud_angle_max (OS env)"
    using rud by (simp add: py_div_def split: if_splits)
  have yv: "ye_L = ye / Lpp (prm (OS env))"
    using yl by (simp add: py_div_def split: if_splits)
  have l1: "length dists = lidar_n_beams env" using sl by (rule sense_LiDAR_length)
  have l2: "length cl = length dists"
    and l3: "\<forall>i < length dists. closeness_of env (dists ! i) = Inr (cl ! i)"
    using get_closeness_entries [OF gc] by simp_all
  show ?thesis
    by (intro exI [of _ dists] exI [of _ pts] exI [of _ cl])
       (use sl gc l1 l2 l3 e' stv rv yv in simp)
qed

lemma sense_LiDAR_ex: "\<exists>pts. sense_LiDAR collab_ex env_ex = Inr ([100, 100], pts)"
proof -
  have "\<forall>p \<in> set (enumerate 0 (lidar_beam_angles env_ex)). \<forall>d \<in> set (d_dots_per_beam env_ex).
             sense_depth env_ex < dot_depth collab_ex env_ex 10 0 (angle_to_2pi collab_ex (snd p + 0)) d"
    by (simp add: dot_depth_ex env_ex_fields)
  from sense_beams_clear [OF this, of "replicate (lidar_n_beams env_ex) (lidar_range env_ex)" "[]"]
  show ?thesis
    by (simp add: sense_LiDAR_def env_ex_fields numeral_2_eq_2)
qed

lemma closeness_ex: "get_closeness_from_lidar env_ex [100, 100] = Inr [0, 0]"
  using get_closeness_replicate [of env_ex 2] by (simp add: env_ex_fields numeral_2_eq_2)

lemma VFG_ex: "VFG collab_ex a1 a2 a3 a4 a5 a6 a7 = (0, 0, 0)"
  by (simp add: collab_ex_def)

lemma set_state_ex:
  "set_state collab_ex env_ex = (Inr (), env_ex\<lparr>state := [5 / 7, 0, 0, 0, 0, 0, 0, 0, 0]\<rparr>)"
proof -
  obtain pts where sl: "sense_LiDAR collab_ex env_ex = Inr ([100, 100], pts)"
    using sense_LiDAR_ex by blast
  have d1: "py_div (rud_angle (OS env_ex)) (rud_angle_max (OS env_ex)) = Inr 0"
    by (simp add: env_ex_fields py_div_def)
  have d2: "py_div 0 (Lpp (prm (OS env_ex))) = Inr 0"
    by (simp add: env_ex_fields py_div_def kvlcc2_full_def)
  have c100: "closeness_of env_ex 100 = Inr 0"
    using closeness_at_range [of env_ex] by (simp add: env_ex_fields)
  show ?thesis
    unfolding set_state_def
    by (simp add: env_ex_fields(6-14) VFG_ex d1 d2 sl c100 bnd_def Let_def)
qed

theorem observation_layout_witness:
  "set_state collab_ex env_ex = (Inr (), env_ex\<lparr>state := [5 / 7, 0, 0, 0, 0, 0, 0, 0, 0]\<rparr>) \<and>
   eta (OS env_ex) = (10, 0, 0) \<and> nu (OS env_ex) = (5, 0, 0) \<and> nu_dot (OS env_ex) = (0, 0, 0) \<and>
   VFG collab_ex (wp1_N env_ex) (wp1_E env_ex) (wp2_N env_ex) (wp2_E env_ex) 10 0 (VFG_K env_ex)
     = (0, 0, 0) \<and>
   (\<exists>dists pts cl.
      sense_LiDAR collab_ex env_ex = Inr (dists, pts) \<and> length dists = lidar_n_beams env_ex \<and>
      get_closeness_from_lidar env_ex dists = Inr cl \<and> length cl = lidar_n_beams env_ex \<and>
      closeness_of env_ex (dists ! 0) = Inr (cl ! 0) \<and>
      closeness_of env_ex (dists ! 1) = Inr (cl ! 1) \<and>
      env_ex\<lparr>state := [5 / 7, 0, 0, 0, 0, 0, 0, 0, 0]\<rparr> = env_ex\<lparr>state :=
        [5 / 7.0, 0 / 0.7, 0 / 0.004, 0 / 0.00008,
         rud_angle (OS env_ex) / rud_angle_max (OS env_ex),
         0 / Lpp (prm (OS env_ex)), 0 / pi] @ cl\<rparr>)"
proof -
  have e: "eta (OS env_ex) = (10, 0, 0)" and v: "nu (OS env_ex) = (5, 0, 0)"
    and a: "nu_dot (OS env_ex) = (0, 0, 0)"
    by (simp_all add: env_ex_fields)
  have g: "VFG collab_ex (wp1_N env_ex) (wp1_E env_ex) (wp2_N env_ex) (wp2_E env_ex) 10 0 (VFG_K env_ex)
     = (0, 0, 0)" by (rule VFG_ex)
  from observation_layout [OF set_state_ex e v a g]
  obtain dists pts cl where
    1: "sense_LiDAR collab_ex env_ex = Inr (dists, pts)" "length dists = lidar_n_beams env_ex"
       "get_closeness_from_lidar env_ex dists = Inr cl" "length cl = lidar_n_beams env_ex"
    and 2: "\<forall>i < lidar_n_beams env_ex. closeness_of env_ex (dists ! i) = Inr (cl ! i)"
    and 3: "env_ex\<lparr>state := [5 / 7, 0, 0, 0, 0, 0, 0, 0, 0]\<rparr> = env_ex\<lparr>state :=
        [5 / 7.0, 0 / 0.7, 0 / 0.004, 0 / 0.00008,
         rud_angle (OS env_ex) / rud_angle_max (OS env_ex),
         0 / Lpp (prm (OS env_ex)), 0 / pi] @ cl\<rparr>"
    by blast
  have 4: "closeness_of env_ex (dists ! 0) = Inr (cl ! 0)" "closeness_of env_ex (dists ! 1) = Inr (cl ! 1)"
    using 2 by (simp_all add: env_ex_fields)
  show ?thesis
    by (intro conjI exI [of _ dists] exI [of _ pts] exI [of _ cl]) (fact set_state_ex e v a g 1 3 4)+
qed

subsection \<open>Waypoint update\<close>


lemma update_wps_unchanged:
  assumes "eta (OS env) = (a_N, a_E, psi)"
    and "\<not> switch_wp (wp1_N env) (wp1_E env) (wp2_N env) (wp2_E env) a_N a_E
         \<or> wp2_idx env = n_wps (DesiredPath env) - 1"
  shows "update_wps env = (Inr (), env)"
  using assms by (auto simp add: update_wps_def Let_def)

lemma update_wps_changed:
  assumes e: "eta (OS env) = (a_N, a_E, psi)"
    and n: "snd (update_wps env) \<noteq> env"
  shows "switch_wp (wp1_N env) (wp1_E env) (wp2_N env) (wp2_E env) a_N a_E \<and>
         wp2_idx env \<noteq> n_wps (DesiredPath env) - 1"
  using update_wps_unchanged [OF e] n by fastforce

lemma update_wps_last:
  assumes "wp2_idx env = n_wps (DesiredPath env) - 1"
  shows "update_wps env = (Inr (), env)"
proof -
  obtain a_N a_E psi where "eta (OS env) = (a_N, a_E, psi)" by (cases "eta (OS env)")
  then show ?thesis using assms by (intro update_wps_unchanged) auto
qed

text \<open>What one call does to the indices and to the first waypoint, error or not.\<close>

lemma update_wps_effect:
  "snd (update_wps env) = env \<or>
   (wp1_idx (snd (update_wps env)) = wp1_idx env + 1 \<and>
    wp2_idx (snd (update_wps env)) = wp2_idx env + 1 \<and>
    wp1_N (snd (update_wps env)) = wp2_N env \<and>
    wp1_E (snd (update_wps env)) = wp2_E env \<and>
    DesiredPath (snd (update_wps env)) = DesiredPath env)"
  by (auto simp add: update_wps_def Let_def split: prod.splits sum.splits)

lemma update_wps_gap:
  "wp2_idx (snd (update_wps env)) - wp1_idx (snd (update_wps env)) = wp2_idx env - wp1_idx env \<and>
   wp1_idx env \<le> wp1_idx (snd (update_wps env)) \<and>
   wp2_idx env \<le> wp2_idx (snd (update_wps env))"
  using update_wps_effect [of env] by auto

lemma update_wps_seq_Cons:
  "update_wps_seq env (p # poses) =
     update_wps_seq (snd (update_wps (env\<lparr>OS := (OS env)\<lparr>eta := p\<rparr>\<rparr>))) poses"
  by (simp add: update_wps_seq_def)

lemma update_wps_seq_gap:
  "wp2_idx (update_wps_seq env poses) - wp1_idx (update_wps_seq env poses) = wp2_idx env - wp1_idx env \<and>
   wp1_idx env \<le> wp1_idx (update_wps_seq env poses) \<and>
   wp2_idx env \<le> wp2_idx (update_wps_seq env poses)"
proof (induction poses arbitrary: env)
  case Nil
  then show ?case by (simp add: update_wps_seq_def)
next
  case (Cons p poses)
  let ?e = "env\<lparr>OS := (OS env)\<lparr>eta := p\<rparr>\<rparr>"
  have g: "wp2_idx (snd (update_wps ?e)) - wp1_idx (snd (update_wps ?e)) = wp2_idx env - wp1_idx env"
    "wp1_idx env \<le> wp1_idx (snd (update_wps ?e))" "wp2_idx env \<le> wp2_idx (snd (update_wps ?e))"
    using update_wps_gap [of ?e] by simp_all
  from Cons.IH [of "snd (update_wps ?e)"] g show ?case
    unfolding update_wps_seq_Cons by linarith
qed


lemma np_index_ok: "0 \<le> i \<Longrightarrow> i < int (length xs) \<Longrightarrow> np_index xs i = Inr (xs ! nat i)"
  by (simp add: np_index_def)

lemma update_wps_wellformed:
  assumes w: "0 \<le> wp2_idx env" "wp2_idx env < n_wps (DesiredPath env)"
    "n_wps (DesiredPath env) = int (length (north (DesiredPath env)))"
    "n_wps (DesiredPath env) = int (length (east (DesiredPath env)))"
  shows "update_wps env = (Inr (), env) \<or>
         update_wps env = (Inr (), env\<lparr>wp1_idx := wp1_idx env + 1, wp1_N := wp2_N env,
            wp1_E := wp2_E env, wp2_idx := wp2_idx env + 1,
            wp2_N := north (DesiredPath env) ! nat (wp2_idx env + 1),
            wp2_E := east (DesiredPath env) ! nat (wp2_idx env + 1)\<rparr>)"
proof (cases "wp2_idx env = n_wps (DesiredPath env) - 1")
  case True
  then show ?thesis by (simp add: update_wps_last)
next
  case False
  with w have i: "0 \<le> wp2_idx env + 1" "wp2_idx env + 1 < int (length (north (DesiredPath env)))"
    "wp2_idx env + 1 < int (length (east (DesiredPath env)))" by simp_all
  show ?thesis
    by (simp add: update_wps_def Let_def np_index_ok [OF i(1) i(2)] np_index_ok [OF i(1) i(3)]
        split: prod.splits)
qed


text \<open>The example environment with the vessel moved five metres beyond the second waypoint.\<close>

lemma sqrt_100: "sqrt 100 = 10"
proof -
  have "sqrt 100 = sqrt (10 ^ 2)" by simp
  also have "\<dots> = 10" by (simp only: real_sqrt_abs)
  finally show ?thesis .
qed

lemma switch_ex: "switch_wp 0 0 10 0 15 0"
  by (simp add: switch_wp_def Let_def sqrt_100)

lemma update_wps_ex_beyond:
  "update_wps (env_ex\<lparr>OS := (OS env_ex)\<lparr>eta := (15, 0, 0)\<rparr>\<rparr>) =
     (Inr (), env_ex\<lparr>OS := (OS env_ex)\<lparr>eta := (15, 0, 0)\<rparr>,
        wp1_idx := 1, wp1_N := 10, wp1_E := 0, wp2_idx := 2, wp2_N := 20, wp2_E := 0\<rparr>)"
  by (simp add: update_wps_def Let_def env_ex_fields switch_ex np_index_def)





text \<open>
  Claim C10. One call of \<open>_update_wps\<close> keeps the difference \<open>wp2_idx - wp1_idx\<close> and
  lowers neither index: either the environment is unchanged, or both indices grow by
  exactly 1 and \<open>wp1\<close> takes the former coordinates of \<open>wp2\<close>. This holds even when
  the read of the path raises IndexError. When \<open>wp2_idx\<close> is a valid index of a path
  whose arrays have \<open>n_wps\<close> entries, the call does not raise, \<open>wp2\<close> takes the path
  entry at the new \<open>wp2_idx\<close>, and the index stays valid for the next call. Over any
  sequence of calls of an episode, with any vessel positions in between, the difference
  is still the same and no index has decreased.
\<close>

theorem update_wps_indices:
  "wp2_idx (snd (update_wps env)) - wp1_idx (snd (update_wps env)) = wp2_idx env - wp1_idx env \<and>
   wp1_idx env \<le> wp1_idx (snd (update_wps env)) \<and>
   wp2_idx env \<le> wp2_idx (snd (update_wps env)) \<and>
   (snd (update_wps env) = env \<or>
      wp1_idx (snd (update_wps env)) = wp1_idx env + 1 \<and>
      wp2_idx (snd (update_wps env)) = wp2_idx env + 1 \<and>
      wp1_N (snd (update_wps env)) = wp2_N env \<and>
      wp1_E (snd (update_wps env)) = wp2_E env) \<and>
   (0 \<le> wp2_idx env \<and> wp2_idx env < n_wps (DesiredPath env) \<and>
    n_wps (DesiredPath env) = int (length (north (DesiredPath env))) \<and>
    n_wps (DesiredPath env) = int (length (east (DesiredPath env))) \<longrightarrow>
      (update_wps env = (Inr (), env) \<or>
       update_wps env = (Inr (), env\<lparr>wp1_idx := wp1_idx env + 1, wp1_N := wp2_N env,
            wp1_E := wp2_E env, wp2_idx := wp2_idx env + 1,
            wp2_N := north (DesiredPath env) ! nat (wp2_idx env + 1),
            wp2_E := east (DesiredPath env) ! nat (wp2_idx env + 1)\<rparr>)) \<and>
      0 \<le> wp2_idx (snd (update_wps env)) \<and>
      wp2_idx (snd (update_wps env)) < n_wps (DesiredPath (snd (update_wps env))) \<and>
      DesiredPath (snd (update_wps env)) = DesiredPath env) \<and>
   wp2_idx (update_wps_seq env poses) - wp1_idx (update_wps_seq env poses) = wp2_idx env - wp1_idx env \<and>
   wp1_idx env \<le> wp1_idx (update_wps_seq env poses) \<and>
   wp2_idx env \<le> wp2_idx (update_wps_seq env poses)"
proof -
  have a: "wp2_idx (snd (update_wps env)) - wp1_idx (snd (update_wps env)) = wp2_idx env - wp1_idx env \<and>
   wp1_idx env \<le> wp1_idx (snd (update_wps env)) \<and>
   wp2_idx env \<le> wp2_idx (snd (update_wps env))" by (rule update_wps_gap)
  have b: "snd (update_wps env) = env \<or>
      wp1_idx (snd (update_wps env)) = wp1_idx env + 1 \<and>
      wp2_idx (snd (update_wps env)) = wp2_idx env + 1 \<and>
      wp1_N (snd (update_wps env)) = wp2_N env \<and>
      wp1_E (snd (update_wps env)) = wp2_E env"
    using update_wps_effect [of env] by blast
  have c: "(update_wps env = (Inr (), env) \<or>
       update_wps env = (Inr (), env\<lparr>wp1_idx := wp1_idx env + 1, wp1_N := wp2_N env,
            wp1_E := wp2_E env, wp2_idx := wp2_idx env + 1,
            wp2_N := north (DesiredPath env) ! nat (wp2_idx env + 1),
            wp2_E := east (DesiredPath env) ! nat (wp2_idx env + 1)\<rparr>)) \<and>
      0 \<le> wp2_idx (snd (update_wps env)) \<and>
      wp2_idx (snd (update_wps env)) < n_wps (DesiredPath (snd (update_wps env))) \<and>
      DesiredPath (snd (update_wps env)) = DesiredPath env"
    if w: "0 \<le> wp2_idx env \<and> wp2_idx env < n_wps (DesiredPath env) \<and>
    n_wps (DesiredPath env) = int (length (north (DesiredPath env))) \<and>
    n_wps (DesiredPath env) = int (length (east (DesiredPath env)))"
  proof -
    from w have w': "0 \<le> wp2_idx env" "wp2_idx env < n_wps (DesiredPath env)"
      "n_wps (DesiredPath env) = int (length (north (DesiredPath env)))"
      "n_wps (DesiredPath env) = int (length (east (DesiredPath env)))" by simp_all
    note d = update_wps_wellformed [OF w']
    have l: "wp2_idx env + 1 < n_wps (DesiredPath env)" if "snd (update_wps env) \<noteq> env"
    proof -
      obtain a_N a_E psi where e: "eta (OS env) = (a_N, a_E, psi)" by (cases "eta (OS env)")
      from update_wps_changed [OF e that] w' show ?thesis by simp
    qed
    have c2: "0 \<le> wp2_idx (snd (update_wps env))"
      using a w'(1) by linarith
    have c34: "wp2_idx (snd (update_wps env)) < n_wps (DesiredPath (snd (update_wps env))) \<and>
      DesiredPath (snd (update_wps env)) = DesiredPath env"
    proof (cases "snd (update_wps env) = env")
      case True
      show ?thesis unfolding True using w'(2) by simp
    next
      case False
      with update_wps_effect [of env]
      have "wp2_idx (snd (update_wps env)) = wp2_idx env + 1"
        "DesiredPath (snd (update_wps env)) = DesiredPath env" by blast+
      with l [OF False] show ?thesis by simp
    qed
    show ?thesis
      by (rule conjI [OF d conjI [OF c2 c34]])
  qed
  have s: "wp2_idx (update_wps_seq env poses) - wp1_idx (update_wps_seq env poses) = wp2_idx env - wp1_idx env \<and>
   wp1_idx env \<le> wp1_idx (update_wps_seq env poses) \<and>
   wp2_idx env \<le> wp2_idx (update_wps_seq env poses)" by (rule update_wps_seq_gap)
  note c' = impI [OF c]
  show ?thesis
    by (rule conjI [OF a [THEN conjunct1] conjI [OF a [THEN conjunct2, THEN conjunct1]
          conjI [OF a [THEN conjunct2, THEN conjunct2] conjI [OF b conjI [OF c' s]]]]])
qed

theorem update_wps_indices_witness:
  "0 \<le> wp2_idx (env_ex\<lparr>OS := (OS env_ex)\<lparr>eta := (15, 0, 0)\<rparr>\<rparr>) \<and>
   wp2_idx (env_ex\<lparr>OS := (OS env_ex)\<lparr>eta := (15, 0, 0)\<rparr>\<rparr>)
     < n_wps (DesiredPath (env_ex\<lparr>OS := (OS env_ex)\<lparr>eta := (15, 0, 0)\<rparr>\<rparr>)) \<and>
   n_wps (DesiredPath (env_ex\<lparr>OS := (OS env_ex)\<lparr>eta := (15, 0, 0)\<rparr>\<rparr>))
     = int (length (north (DesiredPath (env_ex\<lparr>OS := (OS env_ex)\<lparr>eta := (15, 0, 0)\<rparr>\<rparr>)))) \<and>
   n_wps (DesiredPath (env_ex\<lparr>OS := (OS env_ex)\<lparr>eta := (15, 0, 0)\<rparr>\<rparr>))
     = int (length (east (DesiredPath (env_ex\<lparr>OS := (OS env_ex)\<lparr>eta := (15, 0, 0)\<rparr>\<rparr>)))) \<and>
   wp2_idx (snd (update_wps (env_ex\<lparr>OS := (OS env_ex)\<lparr>eta := (15, 0, 0)\<rparr>\<rparr>)))
     - wp1_idx (snd (update_wps (env_ex\<lparr>OS := (OS env_ex)\<lparr>eta := (15, 0, 0)\<rparr>\<rparr>)))
     = wp2_idx (env_ex\<lparr>OS := (OS env_ex)\<lparr>eta := (15, 0, 0)\<rparr>\<rparr>)
       - wp1_idx (env_ex\<lparr>OS := (OS env_ex)\<lparr>eta := (15, 0, 0)\<rparr>\<rparr>) \<and>
   wp2_idx (snd (update_wps (env_ex\<lparr>OS := (OS env_ex)\<lparr>eta := (15, 0, 0)\<rparr>\<rparr>)))
     < n_wps (DesiredPath (snd (update_wps (env_ex\<lparr>OS := (OS env_ex)\<lparr>eta := (15, 0, 0)\<rparr>\<rparr>)))) \<and>
   wp2_idx (env_ex\<lparr>OS := (OS env_ex)\<lparr>eta := (15, 0, 0)\<rparr>\<rparr>)
     \<le> wp2_idx (update_wps_seq (env_ex\<lparr>OS := (OS env_ex)\<lparr>eta := (15, 0, 0)\<rparr>\<rparr>) [(15, 0, 0), (25, 0, 0)])"
proof -
  let ?b = "env_ex\<lparr>OS := (OS env_ex)\<lparr>eta := (15, 0, 0)\<rparr>\<rparr>"
  have w1: "0 \<le> wp2_idx ?b" and w2: "wp2_idx ?b < n_wps (DesiredPath ?b)"
    and w3: "n_wps (DesiredPath ?b) = int (length (north (DesiredPath ?b)))"
    and w4: "n_wps (DesiredPath ?b) = int (length (east (DesiredPath ?b)))"
    by (simp_all add: env_ex_fields)
  note t = update_wps_indices [of ?b "[(15, 0, 0), (25, 0, 0)]"]
  note g = t [THEN conjunct1]
  note k = t [THEN conjunct2, THEN conjunct2, THEN conjunct2, THEN conjunct2, THEN conjunct1,
    rule_format, OF conjI [OF w1 conjI [OF w2 conjI [OF w3 w4]]]]
  note m = t [THEN conjunct2, THEN conjunct2, THEN conjunct2, THEN conjunct2, THEN conjunct2,
    THEN conjunct2, THEN conjunct2]
  show ?thesis
    by (intro conjI)
       (fact w1 w2 w3 w4 g k [THEN conjunct2, THEN conjunct2, THEN conjunct1] m)+
qed

subsection \<open>The step and the current\<close>

lemma control_pose:
  "eta (snd (control os a)) = eta os \<and> nu (snd (control os a)) = nu os"
  by (simp add: control_def Let_def)

lemma control_outcome:
  "fst (control os a) = Inl (AssertionError ''Unknown action.'') \<or> fst (control os a) = Inr ()"
  by (simp add: control_def Let_def)

text \<open>
  Claim C1 says that the integration of each step consumes the current sampled at the
  vessel's position. In the sources it does not. \<open>step\<close> samples the current and passes
  it to \<open>_upd_dynamics\<close> by keyword, but \<open>_upd_dynamics\<close> declares no parameters, so the
  call raises TypeError with the first keyword: every step ends in an error (the one of
  \<open>_control\<close>, or this one) with pose and velocity as they were. The right-hand side
  that \<open>_upd_dynamics\<close> hands to the integrator has the current fixed to 0.0, for which
  the current forces are zero. And for any nonzero current speed the current branch of
  \<open>_mmg_dynamics\<close> itself raises TypeError at \<open>self._C_X(g_rc)\<close>. In the example
  environment the sampled current speed is 0.5 m/s and the step with action 0 raises.
\<close>

theorem step_never_uses_current:
  "(fst (step c env a) = Inl (AssertionError ''Unknown action.'') \<or>
    fst (step c env a) = Inl (TypeError ''_upd_dynamics() got an unexpected keyword argument V_w'')) \<and>
   eta (OS (snd (step c env a))) = eta (OS env) \<and>
   nu (OS (snd (step c env a))) = nu (OS env) \<and>
   upd_rhs os t y = mmg_dynamics os t y 0 (Some 0) \<and>
   current_forces os psi u vm 0 (Some 0) = Inr (0, 0, 0) \<and>
   current_forces os psi u vm beta_c (Some (1 / 2))
     = Inl (TypeError ''_C_X() got the wrong number of positional arguments'') \<and>
   fst (current_at_latlon collab_ex env_ex lat_q lon_q) = 1 / 2 \<and>
   fst (step collab_ex env_ex 0)
     = Inl (TypeError ''_upd_dynamics() got an unexpected keyword argument V_w'')"
proof -
  obtain r os1 where co: "control (OS env) a = (r, os1)" by (cases "control (OS env) a")
  have p: "eta os1 = eta (OS env)" "nu os1 = nu (OS env)"
    using control_pose [of "OS env" a] co by simp_all
  have o: "r = Inl (AssertionError ''Unknown action.'') \<or> r = Inr ()"
    using control_outcome [of "OS env" a] co by simp
  have s1: "fst (step c env a) = Inl (AssertionError ''Unknown action.'') \<or>
    fst (step c env a) = Inl (TypeError ''_upd_dynamics() got an unexpected keyword argument V_w'')"
    using o by (auto simp add: step_outcome co)
  have s2: "eta (OS (snd (step c env a))) = eta (OS env)" "nu (OS (snd (step c env a))) = nu (OS env)"
    using o p by (auto simp add: step_outcome co)
  have s3: "upd_rhs os t y = mmg_dynamics os t y 0 (Some 0)" by (simp add: upd_rhs_def)
  have s4: "current_forces os psi u vm beta_c (Some (1 / 2))
     = Inl (TypeError ''_C_X() got the wrong number of positional arguments'')"
    by (rule current_forces_raises) simp
  have s5: "fst (current_at_latlon collab_ex env_ex lat_q lon_q) = 1 / 2"
    by (simp add: current_at_latlon_def collab_ex_def env_ex_def Let_def)
  have s6: "fst (step collab_ex env_ex 0)
     = Inl (TypeError ''_upd_dynamics() got an unexpected keyword argument V_w'')"
    by (simp add: step_outcome control_def Let_def)
  show ?thesis
    by (intro conjI) (fact s1 s2 s3 s4 s5 s6 current_forces_zero)+
qed

end
